theory Spec2Isabelle
  imports Main
begin

section \<open>The weaverbird session states (src/weaverbird/session/sessionState.ts)\<close>

text \<open>
  The file defines eight state classes with one asynchronous method \<open>interact\<close> each, the
  helper \<open>createFilePaths\<close> and the polling method \<open>generateCode\<close> of the abstract class
  \<open>CodeGenBase\<close>. The embedding below makes every effect of that code explicit:
  \<^item> a rejected promise or a \<open>throw\<close> is the left injection of \<open>error + 'a\<close>;
  \<^item> every call to a collaborator (remote client, upload helper, file system, clock,
    virtual file system, messenger) is appended to an event list, in program order;
  \<^item> the assignments a method makes to the fields of \<open>this\<close> are returned as the updated
    object;
  \<^item> what the collaborators answer is given by the records \<open>proxyClient\<close> and \<open>world\<close>.
  Logging and telemetry have no influence on any result and are left out;
  \<open>telemetry.\<dots>.run\<close> is taken to return or throw what its callback returns or throws.
\<close>

subsection \<open>Errors\<close>

text \<open>
  \<open>ToolkitError msg\<close> is \<open>new ToolkitError(msg)\<close>, \<open>ToolkitError_chain e msg\<close> is
  \<open>ToolkitError.chain(e, msg)\<close>, and \<open>OtherError\<close> stands for any thrown value that is not
  an instance of \<open>ToolkitError\<close>.
\<close>

datatype error =
    ToolkitError string
  | ToolkitError_chain error string
  | UserMessageNotFoundError
  | OtherError string

text \<open>
  Modelled from the spec: the class \<open>UserMessageNotFoundError\<close> is declared in
  weaverbird/errors.ts, which is not among the sources. The spec has the missing user
  message surface as its own condition, that is as a recognised application error, so
  \<open>e instanceof ToolkitError\<close> holds of it.
\<close>

fun instanceof_ToolkitError :: "error \<Rightarrow> bool" where
  "instanceof_ToolkitError (ToolkitError m) = True"
| "instanceof_ToolkitError (ToolkitError_chain e m) = True"
| "instanceof_ToolkitError UserMessageNotFoundError = True"
| "instanceof_ToolkitError (OtherError m) = False"

text \<open>The handler \<open>catch (e) { throw e instanceof ToolkitError ? e : ToolkitError.chain(e, 'Server side error') }\<close>.\<close>

definition rethrow :: "error \<Rightarrow> error" where
  "rethrow e = (if instanceof_ToolkitError e then e else ToolkitError_chain e ''Server side error'')"

subsection \<open>Data\<close>

datatype SessionStatePhase = Init | Approach | Codegen

record NewFile =
  filePath :: string
  fileContent :: string

record Uri =
  scheme :: string
  path :: string

record UploadUrl =
  uploadUrl :: string
  uploadId :: string
  kmsKeyArn :: string

record RepoData =
  zipFileBuffer :: string
  zipFileChecksum :: string

text \<open>
  The remote client. A poll is answered according to its position in the run
  (first argument of \<open>getCodeGeneration\<close>), since the job's status changes over time.
  \<open>generatePlan\<close> may resolve to \<open>undefined\<close>, which is \<open>None\<close>.
\<close>

record proxyClient =
  createUploadUrl :: "string \<Rightarrow> string \<Rightarrow> error + UploadUrl"
  generatePlan :: "string \<Rightarrow> string \<Rightarrow> string \<Rightarrow> error + string option"
  startCodeGeneration :: "string \<Rightarrow> string \<Rightarrow> string option \<Rightarrow> error + string"
  getCodeGeneration :: "nat \<Rightarrow> string \<Rightarrow> string \<Rightarrow> error + string"
  exportResultArchive :: "string \<Rightarrow> error + NewFile list"

text \<open>
  \<open>Omit<SessionStateConfig, 'uploadId'>\<close> and \<open>SessionStateConfig\<close>; the spread
  \<open>{ ...config, uploadId }\<close> is the record extension.
\<close>

record SessionStateConfigBase =
  conversationId :: string
  workspaceRoot :: string
  proxyClient :: proxyClient

record SessionStateConfig = SessionStateConfigBase +
  uploadId :: string

definition withUploadId :: "SessionStateConfigBase \<Rightarrow> string \<Rightarrow> SessionStateConfig" where
  "withUploadId c u =
     \<lparr> SessionStateConfigBase.conversationId = SessionStateConfigBase.conversationId c,
       workspaceRoot = workspaceRoot c, proxyClient = proxyClient c,
       SessionStateConfig.uploadId = u \<rparr>"

text \<open>
  The other collaborators: the values the cancellation token shows at the successive
  checks of the polling loop, the library functions \<open>path.join\<close>, \<open>sanitizeHtml\<close> and
  \<open>randomUUID\<close>, the constant \<open>weaverbirdScheme\<close>, and the helpers \<open>prepareRepoData\<close>,
  \<open>uploadCode\<close>, \<open>fs.stat\<close> and \<open>collectFiles\<close>.
\<close>

record world =
  isCancellationRequested :: "nat \<Rightarrow> bool"
  path_join :: "string \<Rightarrow> string \<Rightarrow> string"
  sanitizeHtml :: "string \<Rightarrow> string"
  randomUUID :: string
  weaverbirdScheme :: string
  prepareRepoData :: "string \<Rightarrow> string \<Rightarrow> error + RepoData"
  uploadCode :: "string \<Rightarrow> string \<Rightarrow> string \<Rightarrow> error + unit"
  stat :: "string \<Rightarrow> error + bool"
  collectFiles :: "string \<Rightarrow> bool \<Rightarrow> error + NewFile list"

text \<open>The calls made to collaborators; a poll is logged with its answer.\<close>

datatype event =
    PrepareRepoData string string
  | CreateUploadUrl string string
  | UploadCode string string string
  | GeneratePlan string string string
  | StartCodeGeneration string string "string option"
  | GetCodeGeneration string string "error + string"
  | ExportResultArchive string
  | SetTimeout nat
  | RegisterProvider Uri string
  | SendAnswer string string string
  | Stat string
  | CollectFiles string bool

fun isRemoteCall :: "event \<Rightarrow> bool" where
  "isRemoteCall (CreateUploadUrl c k) = True"
| "isRemoteCall (UploadCode u b k) = True"
| "isRemoteCall (GeneratePlan c u m) = True"
| "isRemoteCall (StartCodeGeneration c u m) = True"
| "isRemoteCall (GetCodeGeneration c g r) = True"
| "isRemoteCall (ExportResultArchive c) = True"
| "isRemoteCall e = False"

fun isGetCodeGeneration :: "event \<Rightarrow> bool" where
  "isGetCodeGeneration (GetCodeGeneration c g r) = True"
| "isGetCodeGeneration e = False"

fun isSetTimeout :: "event \<Rightarrow> bool" where
  "isSetTimeout (SetTimeout d) = True"
| "isSetTimeout e = False"

fun isRegisterProvider :: "event \<Rightarrow> bool" where
  "isRegisterProvider (RegisterProvider u c) = True"
| "isRegisterProvider e = False"

text \<open>The statuses a run was told, in order.\<close>

fun reportedStatuses :: "event list \<Rightarrow> string list" where
  "reportedStatuses [] = []"
| "reportedStatuses (GetCodeGeneration c g (Inr s) # es) = s # reportedStatuses es"
| "reportedStatuses (e # es) = reportedStatuses es"

subsection \<open>createFilePaths\<close>

text \<open>
  One iteration of the loop registers the file at \<open>path.join(uploadId, filePath)\<close> under
  the weaverbird scheme and pushes \<open>filePath\<close>. Strings are byte lists here, so the
  UTF-8 bytes \<open>TextEncoder.encode\<close> produces are the file content itself.
\<close>

fun createFilePaths :: "world \<Rightarrow> NewFile list \<Rightarrow> string \<Rightarrow> string \<Rightarrow> string list \<times> event list" where
  "createFilePaths w [] uid cid = ([], [])"
| "createFilePaths w (f # fs) uid cid =
     (let generationFilePath = path_join w uid (filePath f);
          uri = \<lparr> scheme = weaverbirdScheme w, path = generationFilePath \<rparr>;
          (filePaths, evs) = createFilePaths w fs uid cid
      in (filePath f # filePaths, RegisterProvider uri (fileContent f) # evs))"

subsection \<open>CodeGenBase and generateCode\<close>

record CodeGenBase =
  pollCount :: nat
  requestDelay :: nat
  phase :: SessionStatePhase
  conversationId :: string
  uploadId :: string
  config :: SessionStateConfig
  tabID :: string

text \<open>Prefix the events of a continuation with those already made.\<close>

fun after :: "event list \<Rightarrow> 'a \<times> event list \<Rightarrow> 'a \<times> event list" where
  "after evs (r, evs') = (r, evs @ evs')"

text \<open>
  The \<open>for\<close> loop of \<open>generateCode\<close> from iteration \<open>i\<close> on, with the code after the loop.
  The token is read by the loop condition only when \<open>i < pollCount\<close>; nothing
  is awaited between a failed loop condition and the check after the loop, so both see
  the same value.
\<close>

function generateCode_loop ::
  "'a CodeGenBase_scheme \<Rightarrow> world \<Rightarrow> string \<Rightarrow> nat \<Rightarrow> (error + NewFile list \<times> string list) \<times> event list" where
  "generateCode_loop this w codeGenerationId pollingIteration =
     (if pollingIteration < pollCount this \<and> \<not> isCancellationRequested w pollingIteration then
        (let codegenResult =
               getCodeGeneration (proxyClient (config this)) pollingIteration
                 (CodeGenBase.conversationId this) codeGenerationId;
             poll = GetCodeGeneration (CodeGenBase.conversationId this) codeGenerationId codegenResult
         in case codegenResult of
              Inl e \<Rightarrow> (Inl e, [poll])
            | Inr status \<Rightarrow>
                if status = ''Complete'' then
                  (case exportResultArchive (proxyClient (config this)) (CodeGenBase.conversationId this) of
                     Inl e \<Rightarrow> (Inl e, [poll, ExportResultArchive (CodeGenBase.conversationId this)])
                   | Inr newFiles \<Rightarrow>
                       (let (newFilePaths, evs) =
                              createFilePaths w newFiles (CodeGenBase.uploadId this) (CodeGenBase.conversationId this)
                        in (Inr (newFiles, newFilePaths),
                            [poll, ExportResultArchive (CodeGenBase.conversationId this)] @ evs)))
                else if status = ''predict-ready'' \<or> status = ''InProgress'' then
                  after [poll, SetTimeout (requestDelay this)]
                    (generateCode_loop this w codeGenerationId (Suc pollingIteration))
                else if status = ''predict-failed'' \<or> status = ''debate-failed'' \<or> status = ''Failed'' then
                  (Inl (ToolkitError ''Code generation failed''), [poll])
                else
                  (Inl (ToolkitError (''Unknown status: '' @ status @ [CHR 0x0A])), [poll]))
      else if \<not> isCancellationRequested w pollingIteration then
        (Inl (ToolkitError ''Code generation did not finish withing the expected time''), [])
      else (Inr ([], []), []))"
  by pat_completeness auto
termination
  by (relation "measure (\<lambda>(this, w, g, i). pollCount this - i)") auto

definition generateCode ::
  "'a CodeGenBase_scheme \<Rightarrow> world \<Rightarrow> string \<Rightarrow> (error + NewFile list \<times> string list) \<times> event list" where
  "generateCode this w codeGenerationId = generateCode_loop this w codeGenerationId 0"

subsection \<open>String operations of the message handling\<close>

fun startsWith :: "string \<Rightarrow> string \<Rightarrow> bool" where
  "startsWith s [] = True"
| "startsWith [] (p # ps) = False"
| "startsWith (c # cs) (p # ps) = (c = p \<and> startsWith cs ps)"

text \<open>\<open>s.indexOf(pat)\<close>: the position of the first occurrence, or \<open>-1\<close>.\<close>

fun indexOf_from :: "string \<Rightarrow> string \<Rightarrow> nat \<Rightarrow> int" where
  "indexOf_from [] pat k = (if startsWith [] pat then int k else - 1)"
| "indexOf_from (c # cs) pat k =
     (if startsWith (c # cs) pat then int k else indexOf_from cs pat (Suc k))"

definition indexOf :: "string \<Rightarrow> string \<Rightarrow> int" where
  "indexOf s pat = indexOf_from s pat 0"

text \<open>
  \<open>s.replace(pat, rep)\<close> with a string pattern: the first occurrence only. The one
  replacement the code uses is the empty string, which has no \<open>$\<close> patterns.
\<close>

fun replace :: "string \<Rightarrow> string \<Rightarrow> string \<Rightarrow> string" where
  "replace [] pat rep = (if startsWith [] pat then rep else [])"
| "replace (c # cs) pat rep =
     (if startsWith (c # cs) pat then rep @ drop (length pat) (c # cs)
      else c # replace cs pat rep)"

subsection \<open>The state classes\<close>

text \<open>
  One record per class, with the fields the class declares; \<open>CodeGenState\<close> and
  \<open>CodeGenIterationState\<close> extend \<open>CodeGenBase\<close>. \<open>MockCodeGenState\<close> declares no \<open>phase\<close>.
  The \<open>tokenSource\<close> of a state is seen through \<open>isCancellationRequested\<close> only.
\<close>

record ConversationNotStartedState =
  phase :: SessionStatePhase
  approach :: string
  tabID :: string

record PrepareRefinementState =
  phase :: SessionStatePhase
  config :: SessionStateConfigBase
  approach :: string
  tabID :: string

record RefinementState =
  conversationId :: string
  uploadId :: string
  phase :: SessionStatePhase
  config :: SessionStateConfig
  approach :: string
  tabID :: string

record RefinementIterationState =
  phase :: SessionStatePhase
  conversationId :: string
  uploadId :: string
  config :: SessionStateConfig
  approach :: string
  tabID :: string

record CodeGenState = CodeGenBase +
  filePaths :: "string list"
  approach :: string

record MockCodeGenState =
  filePaths :: "string list"
  conversationId :: string
  uploadId :: string
  config :: SessionStateConfig
  approach :: string
  tabID :: string

record PrepareIterationState =
  phase :: SessionStatePhase
  uploadId :: string
  conversationId :: string
  config :: SessionStateConfig
  approach :: string
  filePaths :: "string list"
  tabID :: string

record CodeGenIterationState = CodeGenBase +
  approach :: string
  filePaths :: "string list"

text \<open>A reference of type \<open>SessionState\<close> points to an object of one of the eight classes.\<close>

datatype SessionState =
    ConversationNotStarted ConversationNotStartedState
  | PrepareRefinement PrepareRefinementState
  | Refinement RefinementState
  | RefinementIteration RefinementIterationState
  | CodeGen CodeGenState
  | MockCodeGen MockCodeGenState
  | PrepareIteration PrepareIterationState
  | CodeGenIteration CodeGenIterationState

text \<open>The property read \<open>state.phase\<close>; it is \<open>undefined\<close> on an object without the field.\<close>

fun phaseOf :: "SessionState \<Rightarrow> SessionStatePhase option" where
  "phaseOf (ConversationNotStarted s) = Some (ConversationNotStartedState.phase s)"
| "phaseOf (PrepareRefinement s) = Some (PrepareRefinementState.phase s)"
| "phaseOf (Refinement s) = Some (RefinementState.phase s)"
| "phaseOf (RefinementIteration s) = Some (RefinementIterationState.phase s)"
| "phaseOf (CodeGen s) = Some (CodeGenBase.phase s)"
| "phaseOf (MockCodeGen s) = None"
| "phaseOf (PrepareIteration s) = Some (PrepareIterationState.phase s)"
| "phaseOf (CodeGenIteration s) = Some (CodeGenBase.phase s)"

record SessionStateAction =
  msg :: "string option"

text \<open>\<open>{ nextState, interaction: { content } }\<close>; \<open>interaction: {}\<close> has no content.\<close>

record SessionStateInteraction =
  nextState :: SessionState
  content :: "string option"

text \<open>
  What a call of \<open>interact\<close> on the object \<open>this\<close> leaves behind: the object with the
  assignments made to its fields, the value returned or the error thrown, and the calls
  made to collaborators.
\<close>

record 's outcome =
  self :: 's
  returned :: "error + SessionStateInteraction"
  events :: "event list"

subsection \<open>Constructors\<close>

definition new_ConversationNotStartedState :: "string \<Rightarrow> string \<Rightarrow> ConversationNotStartedState" where
  "new_ConversationNotStartedState approach' tabID' =
     \<lparr> ConversationNotStartedState.phase = Init,
       ConversationNotStartedState.approach = [],
       ConversationNotStartedState.tabID = tabID' \<rparr>"

definition new_PrepareRefinementState ::
  "SessionStateConfigBase \<Rightarrow> string \<Rightarrow> string \<Rightarrow> PrepareRefinementState" where
  "new_PrepareRefinementState config' approach' tabID' =
     \<lparr> PrepareRefinementState.phase = Approach,
       PrepareRefinementState.config = config',
       PrepareRefinementState.approach = approach',
       PrepareRefinementState.tabID = tabID' \<rparr>"

definition new_RefinementState :: "SessionStateConfig \<Rightarrow> string \<Rightarrow> string \<Rightarrow> RefinementState" where
  "new_RefinementState config' approach' tabID' =
     \<lparr> RefinementState.conversationId = SessionStateConfigBase.conversationId config',
       RefinementState.uploadId = SessionStateConfig.uploadId config',
       RefinementState.phase = Approach,
       RefinementState.config = config',
       RefinementState.approach = approach',
       RefinementState.tabID = tabID' \<rparr>"

definition new_RefinementIterationState ::
  "SessionStateConfig \<Rightarrow> string \<Rightarrow> string \<Rightarrow> RefinementIterationState" where
  "new_RefinementIterationState config' approach' tabID' =
     \<lparr> RefinementIterationState.phase = Approach,
       RefinementIterationState.conversationId = SessionStateConfigBase.conversationId config',
       RefinementIterationState.uploadId = SessionStateConfig.uploadId config',
       RefinementIterationState.config = config',
       RefinementIterationState.approach = approach',
       RefinementIterationState.tabID = tabID' \<rparr>"

definition new_CodeGenState :: "SessionStateConfig \<Rightarrow> string \<Rightarrow> string \<Rightarrow> CodeGenState" where
  "new_CodeGenState config' approach' tabID' =
     \<lparr> pollCount = 180, requestDelay = 10000, CodeGenBase.phase = Codegen,
       CodeGenBase.conversationId = SessionStateConfigBase.conversationId config',
       CodeGenBase.uploadId = SessionStateConfig.uploadId config',
       CodeGenBase.config = config',
       CodeGenBase.tabID = tabID',
       CodeGenState.filePaths = [],
       CodeGenState.approach = approach' \<rparr>"

definition new_MockCodeGenState ::
  "world \<Rightarrow> SessionStateConfig \<Rightarrow> string \<Rightarrow> string \<Rightarrow> MockCodeGenState" where
  "new_MockCodeGenState w config' approach' tabID' =
     \<lparr> MockCodeGenState.filePaths = [],
       MockCodeGenState.conversationId = SessionStateConfigBase.conversationId config',
       MockCodeGenState.uploadId = randomUUID w,
       MockCodeGenState.config = config',
       MockCodeGenState.approach = approach',
       MockCodeGenState.tabID = tabID' \<rparr>"

definition new_PrepareIterationState ::
  "SessionStateConfig \<Rightarrow> string \<Rightarrow> string list \<Rightarrow> string \<Rightarrow> PrepareIterationState" where
  "new_PrepareIterationState config' approach' filePaths' tabID' =
     \<lparr> PrepareIterationState.phase = Codegen,
       PrepareIterationState.uploadId = SessionStateConfig.uploadId config',
       PrepareIterationState.conversationId = SessionStateConfigBase.conversationId config',
       PrepareIterationState.config = config',
       PrepareIterationState.approach = approach',
       PrepareIterationState.filePaths = filePaths',
       PrepareIterationState.tabID = tabID' \<rparr>"

definition new_CodeGenIterationState ::
  "SessionStateConfig \<Rightarrow> string \<Rightarrow> string list \<Rightarrow> string \<Rightarrow> CodeGenIterationState" where
  "new_CodeGenIterationState config' approach' filePaths' tabID' =
     \<lparr> pollCount = 180, requestDelay = 10000, CodeGenBase.phase = Codegen,
       CodeGenBase.conversationId = SessionStateConfigBase.conversationId config',
       CodeGenBase.uploadId = SessionStateConfig.uploadId config',
       CodeGenBase.config = config',
       CodeGenBase.tabID = tabID',
       CodeGenIterationState.approach = approach',
       CodeGenIterationState.filePaths = filePaths' \<rparr>"

subsection \<open>interact\<close>

definition fallbackApproach :: string where
  "fallbackApproach =
     ''There has been a problem generating an approach. Please open a conversation in a new tab''"

text \<open>\<open>approach ?? fallback\<close>: only \<open>undefined\<close> (and \<open>null\<close>) give way to the fallback.\<close>

fun nullish :: "string option \<Rightarrow> string \<Rightarrow> string" where
  "nullish None d = d"
| "nullish (Some a) d = a"

text \<open>\<open>!action.msg\<close>: the message is absent or the empty string.\<close>

fun msgMissing :: "string option \<Rightarrow> bool" where
  "msgMissing None = True"
| "msgMissing (Some m) = (m = [])"

text \<open>The message where a string is expected; read only after \<open>msgMissing\<close> was excluded.\<close>

fun msgText :: "string option \<Rightarrow> string" where
  "msgText None = []"
| "msgText (Some m) = m"

definition ConversationNotStartedState_interact ::
  "ConversationNotStartedState \<Rightarrow> SessionStateAction \<Rightarrow> world \<Rightarrow> ConversationNotStartedState outcome" where
  "ConversationNotStartedState_interact this action w =
     \<lparr> self = this,
       returned = Inl (ToolkitError ''Illegal transition between states, restart the conversation''),
       events = [] \<rparr>"

text \<open>
  \<open>RefinementState.interact\<close>: the whole body is inside \<open>try\<close>, so every error leaves
  through \<open>rethrow\<close>.
\<close>

definition RefinementState_interact ::
  "RefinementState \<Rightarrow> SessionStateAction \<Rightarrow> world \<Rightarrow> RefinementState outcome" where
  "RefinementState_interact this action w =
     (if msgMissing (msg action) then
        \<lparr> self = this, returned = Inl (rethrow UserMessageNotFoundError), events = [] \<rparr>
      else
        (let cfg = RefinementState.config this;
             call = GeneratePlan (SessionStateConfigBase.conversationId cfg)
                      (SessionStateConfig.uploadId cfg) (msgText (msg action))
         in case generatePlan (proxyClient cfg) (SessionStateConfigBase.conversationId cfg)
                   (SessionStateConfig.uploadId cfg) (msgText (msg action)) of
              Inl e \<Rightarrow> \<lparr> self = this, returned = Inl (rethrow e), events = [call] \<rparr>
            | Inr plan \<Rightarrow>
                (let this' = this\<lparr> RefinementState.approach :=
                                      sanitizeHtml w (nullish plan fallbackApproach) \<rparr>
                 in \<lparr> self = this',
                      returned = Inr
                        \<lparr> nextState = RefinementIteration
                            (new_RefinementIterationState
                               (cfg\<lparr> SessionStateConfigBase.conversationId :=
                                       RefinementState.conversationId this' \<rparr>)
                               (RefinementState.approach this') (RefinementState.tabID this')),
                          content = Some (RefinementState.approach this' @ [CHR 0x0A]) \<rparr>,
                      events = [call] \<rparr>)))"

text \<open>
  \<open>MockCodeGenState.interact\<close>: whatever \<open>fs.stat\<close> or \<open>collectFiles\<close> throw is caught and
  logged; the state returned is a \<open>RefinementState\<close> in every case.
\<close>

definition MockCodeGenState_interact ::
  "MockCodeGenState \<Rightarrow> SessionStateAction \<Rightarrow> world \<Rightarrow> MockCodeGenState outcome" where
  "MockCodeGenState_interact this action w =
     (let cfg = MockCodeGenState.config this;
          mockedFilesDir = path_join w (workspaceRoot cfg) ''./mock-data'';
          (this', evs) =
            (case stat w mockedFilesDir of
               Inl e \<Rightarrow> (this, [Stat mockedFilesDir])
             | Inr mockDirectoryExists \<Rightarrow>
                 if mockDirectoryExists then
                   (case collectFiles w mockedFilesDir False of
                      Inl e \<Rightarrow> (this, [Stat mockedFilesDir, CollectFiles mockedFilesDir False])
                    | Inr files \<Rightarrow>
                        (let newFileContents =
                               map (\<lambda>f. \<lparr> filePath = replace (filePath f) ''mock-data/'' [],
                                           fileContent = fileContent f \<rparr>) files;
                             (paths, regs) =
                               createFilePaths w newFileContents (MockCodeGenState.uploadId this)
                                 (MockCodeGenState.conversationId this)
                         in (this\<lparr> MockCodeGenState.filePaths := paths \<rparr>,
                             [Stat mockedFilesDir, CollectFiles mockedFilesDir False] @ regs)))
                 else (this, [Stat mockedFilesDir]))
      in \<lparr> self = this',
           returned = Inr
             \<lparr> nextState = Refinement
                 (new_RefinementState
                    (cfg\<lparr> SessionStateConfigBase.conversationId :=
                            MockCodeGenState.conversationId this' \<rparr>)
                    (MockCodeGenState.approach this') (MockCodeGenState.tabID this')),
               content = None \<rparr>,
           events = evs \<rparr>)"

text \<open>
  \<open>RefinementIterationState.interact\<close>: no \<open>try\<close> here, errors leave as they are. On the
  mock path the object called is a new \<open>MockCodeGenState\<close>; this object is not changed.
\<close>

definition RefinementIterationState_interact ::
  "RefinementIterationState \<Rightarrow> SessionStateAction \<Rightarrow> world \<Rightarrow> RefinementIterationState outcome" where
  "RefinementIterationState_interact this action w =
     (if \<not> msgMissing (msg action) \<and> indexOf (msgText (msg action)) ''MOCK CODE'' \<noteq> - 1 then
        (let mock = MockCodeGenState_interact
                      (new_MockCodeGenState w (RefinementIterationState.config this)
                         (RefinementIterationState.approach this) (RefinementIterationState.tabID this))
                      action w
         in \<lparr> self = this, returned = returned mock, events = events mock \<rparr>)
      else if msgMissing (msg action) then
        \<lparr> self = this, returned = Inl UserMessageNotFoundError, events = [] \<rparr>
      else
        (let cfg = RefinementIterationState.config this;
             call = GeneratePlan (SessionStateConfigBase.conversationId cfg)
                      (SessionStateConfig.uploadId cfg) (msgText (msg action))
         in case generatePlan (proxyClient cfg) (SessionStateConfigBase.conversationId cfg)
                   (SessionStateConfig.uploadId cfg) (msgText (msg action)) of
              Inl e \<Rightarrow> \<lparr> self = this, returned = Inl e, events = [call] \<rparr>
            | Inr plan \<Rightarrow>
                (let this' = this\<lparr> RefinementIterationState.approach :=
                                      sanitizeHtml w (nullish plan fallbackApproach) \<rparr>
                 in \<lparr> self = this',
                      returned = Inr
                        \<lparr> nextState = RefinementIteration
                            (new_RefinementIterationState cfg
                               (RefinementIterationState.approach this')
                               (RefinementIterationState.tabID this')),
                          content = Some (RefinementIterationState.approach this' @ [CHR 0x0A]) \<rparr>,
                      events = [call] \<rparr>)))"

text \<open>
  \<open>PrepareRefinementState.interact\<close>: snapshot, upload, then the call is handed to a new
  \<open>RefinementState\<close>.
\<close>

definition PrepareRefinementState_interact ::
  "PrepareRefinementState \<Rightarrow> SessionStateAction \<Rightarrow> world \<Rightarrow> PrepareRefinementState outcome" where
  "PrepareRefinementState_interact this action w =
     (let cfg = PrepareRefinementState.config this;
          e1 = PrepareRepoData (workspaceRoot cfg) (SessionStateConfigBase.conversationId cfg)
      in case prepareRepoData w (workspaceRoot cfg) (SessionStateConfigBase.conversationId cfg) of
           Inl e \<Rightarrow> \<lparr> self = this, returned = Inl e, events = [e1] \<rparr>
         | Inr repo \<Rightarrow>
             (let e2 = CreateUploadUrl (SessionStateConfigBase.conversationId cfg) (zipFileChecksum repo)
              in case createUploadUrl (proxyClient cfg) (SessionStateConfigBase.conversationId cfg)
                        (zipFileChecksum repo) of
                   Inl e \<Rightarrow> \<lparr> self = this, returned = Inl e, events = [e1, e2] \<rparr>
                 | Inr up \<Rightarrow>
                     (let e3 = UploadCode (uploadUrl up) (zipFileBuffer repo) (kmsKeyArn up)
                      in case uploadCode w (uploadUrl up) (zipFileBuffer repo) (kmsKeyArn up) of
                           Inl e \<Rightarrow> \<lparr> self = this, returned = Inl e, events = [e1, e2, e3] \<rparr>
                         | Inr u \<Rightarrow>
                             (let next = RefinementState_interact
                                           (new_RefinementState (withUploadId cfg (UploadUrl.uploadId up))
                                              (PrepareRefinementState.approach this)
                                              (PrepareRefinementState.tabID this))
                                           action w
                              in \<lparr> self = this, returned = returned next,
                                   events = [e1, e2, e3] @ events next \<rparr>))))"

text \<open>
  \<open>CodeGenState.interact\<close>: the body is inside \<open>try\<close>; what \<open>startCodeGeneration\<close> or
  \<open>generateCode\<close> throw leaves through \<open>rethrow\<close>. The job is started without a message.
\<close>

definition CodeGenState_interact ::
  "CodeGenState \<Rightarrow> SessionStateAction \<Rightarrow> world \<Rightarrow> CodeGenState outcome" where
  "CodeGenState_interact this action w =
     (let cfg = CodeGenBase.config this;
          e1 = SendAnswer ''Uploading code ...'' ''answer-part'' (CodeGenBase.tabID this);
          e2 = StartCodeGeneration (SessionStateConfigBase.conversationId cfg)
                 (SessionStateConfig.uploadId cfg) None
      in case startCodeGeneration (proxyClient cfg) (SessionStateConfigBase.conversationId cfg)
                (SessionStateConfig.uploadId cfg) None of
           Inl e \<Rightarrow> \<lparr> self = this, returned = Inl (rethrow e), events = [e1, e2] \<rparr>
         | Inr codeGenerationId \<Rightarrow>
             (let e3 = SendAnswer ''Generating code ...'' ''answer-part'' (CodeGenBase.tabID this);
                  (codeGeneration, evs) = generateCode this w codeGenerationId
              in case codeGeneration of
                   Inl e \<Rightarrow> \<lparr> self = this, returned = Inl (rethrow e), events = [e1, e2, e3] @ evs \<rparr>
                 | Inr (newFiles, newFilePaths) \<Rightarrow>
                     (let this' = this\<lparr> CodeGenState.filePaths := newFilePaths \<rparr>
                      in \<lparr> self = this',
                           returned = Inr
                             \<lparr> nextState = PrepareIteration
                                 (new_PrepareIterationState cfg (CodeGenState.approach this')
                                    (CodeGenState.filePaths this') (CodeGenBase.tabID this')),
                               content = None \<rparr>,
                           events = [e1, e2, e3] @ evs \<rparr>)))"

text \<open>\<open>CodeGenIterationState.interact\<close>: the same steps with the user's message and no \<open>try\<close>.\<close>

definition CodeGenIterationState_interact ::
  "CodeGenIterationState \<Rightarrow> SessionStateAction \<Rightarrow> world \<Rightarrow> CodeGenIterationState outcome" where
  "CodeGenIterationState_interact this action w =
     (let cfg = CodeGenBase.config this;
          e1 = SendAnswer ''Uploading code ...'' ''answer-part'' (CodeGenBase.tabID this);
          e2 = StartCodeGeneration (SessionStateConfigBase.conversationId cfg)
                 (SessionStateConfig.uploadId cfg) (msg action)
      in case startCodeGeneration (proxyClient cfg) (SessionStateConfigBase.conversationId cfg)
                (SessionStateConfig.uploadId cfg) (msg action) of
           Inl e \<Rightarrow> \<lparr> self = this, returned = Inl e, events = [e1, e2] \<rparr>
         | Inr codeGenerationId \<Rightarrow>
             (let e3 = SendAnswer ''Generating code ...'' ''answer-part'' (CodeGenBase.tabID this);
                  (codeGeneration, evs) = generateCode this w codeGenerationId
              in case codeGeneration of
                   Inl e \<Rightarrow> \<lparr> self = this, returned = Inl e, events = [e1, e2, e3] @ evs \<rparr>
                 | Inr (newFiles, newFilePaths) \<Rightarrow>
                     (let this' = this\<lparr> CodeGenIterationState.filePaths := newFilePaths \<rparr>
                      in \<lparr> self = this',
                           returned = Inr
                             \<lparr> nextState = PrepareIteration
                                 (new_PrepareIterationState cfg (CodeGenIterationState.approach this')
                                    (CodeGenIterationState.filePaths this') (CodeGenBase.tabID this')),
                               content = None \<rparr>,
                           events = [e1, e2, e3] @ evs \<rparr>)))"

text \<open>
  \<open>PrepareIterationState.interact\<close>: \<open>this.uploadId\<close> is assigned before the upload, so the
  assignment stays when the upload fails. The call is handed to a new
  \<open>CodeGenIterationState\<close> built with the approach \<open>''\<close>.
\<close>

definition PrepareIterationState_interact ::
  "PrepareIterationState \<Rightarrow> SessionStateAction \<Rightarrow> world \<Rightarrow> PrepareIterationState outcome" where
  "PrepareIterationState_interact this action w =
     (let cfg = PrepareIterationState.config this;
          e1 = PrepareRepoData (workspaceRoot cfg) (PrepareIterationState.conversationId this)
      in case prepareRepoData w (workspaceRoot cfg) (PrepareIterationState.conversationId this) of
           Inl e \<Rightarrow> \<lparr> self = this, returned = Inl e, events = [e1] \<rparr>
         | Inr repo \<Rightarrow>
             (let e2 = CreateUploadUrl (SessionStateConfigBase.conversationId cfg) (zipFileChecksum repo)
              in case createUploadUrl (proxyClient cfg) (SessionStateConfigBase.conversationId cfg)
                        (zipFileChecksum repo) of
                   Inl e \<Rightarrow> \<lparr> self = this, returned = Inl e, events = [e1, e2] \<rparr>
                 | Inr up \<Rightarrow>
                     (let this' = this\<lparr> PrepareIterationState.uploadId := UploadUrl.uploadId up \<rparr>;
                          e3 = UploadCode (uploadUrl up) (zipFileBuffer repo) (kmsKeyArn up)
                      in case uploadCode w (uploadUrl up) (zipFileBuffer repo) (kmsKeyArn up) of
                           Inl e \<Rightarrow> \<lparr> self = this', returned = Inl e, events = [e1, e2, e3] \<rparr>
                         | Inr u \<Rightarrow>
                             (let next = CodeGenIterationState_interact
                                           (new_CodeGenIterationState
                                              (cfg\<lparr> SessionStateConfig.uploadId := UploadUrl.uploadId up \<rparr>)
                                              [] (PrepareIterationState.filePaths this')
                                              (PrepareIterationState.tabID this'))
                                           action w
                              in \<lparr> self = this', returned = returned next,
                                   events = [e1, e2, e3] @ events next \<rparr>))))"

text \<open>The call \<open>state.interact(action)\<close> through a reference of type \<open>SessionState\<close>.\<close>

definition lift :: "('s \<Rightarrow> SessionState) \<Rightarrow> 's outcome \<Rightarrow> SessionState outcome" where
  "lift C out = \<lparr> self = C (self out), returned = returned out, events = events out \<rparr>"

fun interact :: "SessionState \<Rightarrow> SessionStateAction \<Rightarrow> world \<Rightarrow> SessionState outcome" where
  "interact (ConversationNotStarted s) a w = lift ConversationNotStarted (ConversationNotStartedState_interact s a w)"
| "interact (PrepareRefinement s) a w = lift PrepareRefinement (PrepareRefinementState_interact s a w)"
| "interact (Refinement s) a w = lift Refinement (RefinementState_interact s a w)"
| "interact (RefinementIteration s) a w = lift RefinementIteration (RefinementIterationState_interact s a w)"
| "interact (CodeGen s) a w = lift CodeGen (CodeGenState_interact s a w)"
| "interact (MockCodeGen s) a w = lift MockCodeGen (MockCodeGenState_interact s a w)"
| "interact (PrepareIteration s) a w = lift PrepareIteration (PrepareIterationState_interact s a w)"
| "interact (CodeGenIteration s) a w = lift CodeGenIteration (CodeGenIterationState_interact s a w)"

subsection \<open>Notions used to state the properties of the polling loop\<close>

text \<open>
  Iteration \<open>j\<close> of the loop runs and ends in the pause before the next poll: the bound and
  the token let it run, and the poll is answered \<open>predict-ready\<close> or \<open>InProgress\<close>.
\<close>

definition continuesAt :: "'a CodeGenBase_scheme \<Rightarrow> world \<Rightarrow> string \<Rightarrow> nat \<Rightarrow> bool" where
  "continuesAt this w g j =
     (j < pollCount this \<and> \<not> isCancellationRequested w j \<and>
      (getCodeGeneration (proxyClient (CodeGenBase.config this)) j (CodeGenBase.conversationId this) g
         = Inr ''predict-ready'' \<or>
       getCodeGeneration (proxyClient (CodeGenBase.config this)) j (CodeGenBase.conversationId this) g
         = Inr ''InProgress''))"

text \<open>The events of the iterations \<open>0, \<dots>, k - 1\<close> when each of them polls and pauses.\<close>

definition pollsBefore :: "'a CodeGenBase_scheme \<Rightarrow> world \<Rightarrow> string \<Rightarrow> nat \<Rightarrow> event list" where
  "pollsBefore this w g k =
     concat (map (\<lambda>j. [GetCodeGeneration (CodeGenBase.conversationId this) g
                          (getCodeGeneration (proxyClient (CodeGenBase.config this)) j
                             (CodeGenBase.conversationId this) g),
                        SetTimeout (requestDelay this)]) [0..<k])"

text \<open>The registrations \<open>createFilePaths\<close> makes for a list of files.\<close>

definition registrations :: "world \<Rightarrow> string \<Rightarrow> NewFile list \<Rightarrow> event list" where
  "registrations w uid fs =
     map (\<lambda>f. RegisterProvider \<lparr> scheme = weaverbirdScheme w, path = path_join w uid (filePath f) \<rparr>
                (fileContent f)) fs"

subsection \<open>Example collaborators\<close>

text \<open>
  Concrete collaborators for closed instances of the theorems below: a client that
  answers the polls from a given function and the plan request with a given value, and
  a world whose \<open>path.join\<close> puts a slash between its arguments, whose sanitizer drops
  every \<open><\<close>, and which has no mock-data directory.
\<close>

definition exampleFiles :: "NewFile list" where
  "exampleFiles =
     [\<lparr> filePath = ''src/a.ts'', fileContent = ''let a = 1'' \<rparr>,
      \<lparr> filePath = ''README.md'', fileContent = ''hello'' \<rparr>]"

definition exampleClient :: "(nat \<Rightarrow> error + string) \<Rightarrow> (error + string option) \<Rightarrow> proxyClient" where
  "exampleClient polls plan =
     \<lparr> createUploadUrl = (\<lambda>c k. Inr \<lparr> uploadUrl = ''https://upload'', UploadUrl.uploadId = ''upload-2'', kmsKeyArn = ''key'' \<rparr>),
       generatePlan = (\<lambda>c u m. plan),
       startCodeGeneration = (\<lambda>c u m. Inr ''gen-1''),
       getCodeGeneration = (\<lambda>k c g. polls k),
       exportResultArchive = (\<lambda>c. Inr exampleFiles) \<rparr>"

definition exampleConfig :: "(nat \<Rightarrow> error + string) \<Rightarrow> (error + string option) \<Rightarrow> SessionStateConfig" where
  "exampleConfig polls plan =
     \<lparr> SessionStateConfigBase.conversationId = ''conv-1'', workspaceRoot = ''/ws'',
       proxyClient = exampleClient polls plan, SessionStateConfig.uploadId = ''upload-1'' \<rparr>"

definition exampleWorld :: "(nat \<Rightarrow> bool) \<Rightarrow> world" where
  "exampleWorld cancelled =
     \<lparr> isCancellationRequested = cancelled,
       path_join = (\<lambda>a b. a @ ''/'' @ b),
       sanitizeHtml = filter (\<lambda>c. c \<noteq> CHR ''<''),
       randomUUID = ''uuid-1'',
       weaverbirdScheme = ''weaverbird'',
       prepareRepoData = (\<lambda>r c. Inr \<lparr> zipFileBuffer = ''zip'', zipFileChecksum = ''sum'' \<rparr>),
       uploadCode = (\<lambda>u b k. Inr ()),
       stat = (\<lambda>d. Inl (OtherError ''ENOENT'')),
       collectFiles = (\<lambda>d r. Inr []) \<rparr>"

text \<open>Poll answers given as a list; polls beyond it are answered \<open>InProgress\<close>.\<close>

definition script :: "string list \<Rightarrow> nat \<Rightarrow> error + string" where
  "script ss k = (if k < length ss then Inr (ss ! k) else Inr ''InProgress'')"

subsection \<open>Notions used to state the properties of the states\<close>

text \<open>The text contains the opening of a script tag.\<close>

definition hasScriptTag :: "string \<Rightarrow> bool" where
  "hasScriptTag s = (indexOf s ''<script'' \<noteq> - 1)"

text \<open>The class of the object a reference points to (\<open>state.constructor.name\<close>).\<close>

fun className :: "SessionState \<Rightarrow> string" where
  "className (ConversationNotStarted s) = ''ConversationNotStartedState''"
| "className (PrepareRefinement s) = ''PrepareRefinementState''"
| "className (Refinement s) = ''RefinementState''"
| "className (RefinementIteration s) = ''RefinementIterationState''"
| "className (CodeGen s) = ''CodeGenState''"
| "className (MockCodeGen s) = ''MockCodeGenState''"
| "className (PrepareIteration s) = ''PrepareIterationState''"
| "className (CodeGenIteration s) = ''CodeGenIterationState''"

text \<open>A token that is never signalled, and a job whose polls are all rejected.\<close>

definition neverCancelled :: "nat \<Rightarrow> bool" where
  "neverCancelled k = False"

definition failingPolls :: "nat \<Rightarrow> error + string" where
  "failingPolls k = Inl (OtherError ''socket hang up'')"

text \<open>The example configuration before the first upload, without an upload id.\<close>

definition exampleConfigBase :: "(nat \<Rightarrow> error + string) \<Rightarrow> (error + string option) \<Rightarrow> SessionStateConfigBase" where
  "exampleConfigBase polls plan =
     \<lparr> SessionStateConfigBase.conversationId = ''conv-1'', workspaceRoot = ''/ws'',
       proxyClient = exampleClient polls plan \<rparr>"

section \<open>Properties of the polling loop\<close>

declare generateCode_loop.simps [simp del]

lemma createFilePaths_eq:
  "createFilePaths w fs uid cid = (map filePath fs, registrations w uid fs)"
  by (induction fs) (simp_all add: registrations_def)

lemma reportedStatuses_registrations [simp]:
  "reportedStatuses (registrations w uid fs) = []"
  by (induction fs) (simp_all add: registrations_def)

lemma filter_polls_registrations [simp]:
  "filter isGetCodeGeneration (registrations w uid fs) = []"
  by (induction fs) (simp_all add: registrations_def)

lemma filter_pauses_registrations [simp]:
  "filter isSetTimeout (registrations w uid fs) = []"
  by (induction fs) (simp_all add: registrations_def)

lemma after_snd [simp]: "snd (after evs p) = evs @ snd p"
  by (cases p) simp

lemma after_fst [simp]: "fst (after evs p) = fst p"
  by (cases p) simp

lemma after_after [simp]: "after xs (after ys p) = after (xs @ ys) p"
  by (cases p) simp

lemma after_Nil [simp]: "after [] p = p"
  by (cases p) simp

text \<open>A run that was told a status went through the loop condition and made the poll.\<close>

lemma loop_reported_Cons:
  assumes "reportedStatuses (snd (generateCode_loop this w g i)) = s # rest"
  shows "i < pollCount this \<and> \<not> isCancellationRequested w i
       \<and> getCodeGeneration (proxyClient (CodeGenBase.config this)) i (CodeGenBase.conversationId this) g = Inr s
       \<and> (if s = ''predict-ready'' \<or> s = ''InProgress''
          then rest = reportedStatuses (snd (generateCode_loop this w g (Suc i)))
          else rest = [])"
  using assms
  by (subst (asm) generateCode_loop.simps)
     (auto simp: Let_def createFilePaths_eq split: if_splits sum.splits)

lemma loop_continue:
  assumes "continuesAt this w g i"
  shows "generateCode_loop this w g i =
           after [GetCodeGeneration (CodeGenBase.conversationId this) g
                    (getCodeGeneration (proxyClient (CodeGenBase.config this)) i (CodeGenBase.conversationId this) g),
                  SetTimeout (requestDelay this)]
             (generateCode_loop this w g (Suc i))"
  using assms unfolding continuesAt_def
  by (subst generateCode_loop.simps) (auto simp: Let_def)

lemma pollsBefore_Suc:
  "pollsBefore this w g (Suc k) =
     pollsBefore this w g k @
       [GetCodeGeneration (CodeGenBase.conversationId this) g
          (getCodeGeneration (proxyClient (CodeGenBase.config this)) k (CodeGenBase.conversationId this) g),
        SetTimeout (requestDelay this)]"
  by (simp add: pollsBefore_def)

lemma pollsBefore_0 [simp]: "pollsBefore this w g 0 = []"
  by (simp add: pollsBefore_def)

lemma loop_skip:
  "(\<And>j. j < k \<Longrightarrow> continuesAt this w g j) \<Longrightarrow>
   generateCode_loop this w g 0 = after (pollsBefore this w g k) (generateCode_loop this w g k)"
proof (induction k)
  case 0
  show ?case by simp
next
  case (Suc k)
  have "generateCode_loop this w g 0 = after (pollsBefore this w g k) (generateCode_loop this w g k)"
    using Suc by simp
  also have "generateCode_loop this w g k =
      after [GetCodeGeneration (CodeGenBase.conversationId this) g
               (getCodeGeneration (proxyClient (CodeGenBase.config this)) k (CodeGenBase.conversationId this) g),
             SetTimeout (requestDelay this)] (generateCode_loop this w g (Suc k))"
    using Suc.prems [of k] by (simp add: loop_continue)
  finally show ?case by (simp add: pollsBefore_Suc)
qed

lemma generateCode_skip:
  assumes "\<forall>j<k. continuesAt this w g j"
  shows "generateCode this w g = after (pollsBefore this w g k) (generateCode_loop this w g k)"
  unfolding generateCode_def using assms by (intro loop_skip) simp

lemma loop_complete:
  assumes "i < pollCount this" "\<not> isCancellationRequested w i"
    and "getCodeGeneration (proxyClient (CodeGenBase.config this)) i (CodeGenBase.conversationId this) g = Inr ''Complete''"
  shows "generateCode_loop this w g i =
     (case exportResultArchive (proxyClient (CodeGenBase.config this)) (CodeGenBase.conversationId this) of
        Inl e \<Rightarrow> (Inl e, [GetCodeGeneration (CodeGenBase.conversationId this) g (Inr ''Complete''),
                           ExportResultArchive (CodeGenBase.conversationId this)])
      | Inr files \<Rightarrow> (Inr (files, map filePath files),
                      [GetCodeGeneration (CodeGenBase.conversationId this) g (Inr ''Complete''),
                       ExportResultArchive (CodeGenBase.conversationId this)]
                      @ registrations w (CodeGenBase.uploadId this) files))"
  using assms
  by (subst generateCode_loop.simps) (simp add: Let_def createFilePaths_eq split: sum.splits)

lemma loop_stop:
  assumes "i < pollCount this" "\<not> isCancellationRequested w i"
    and "getCodeGeneration (proxyClient (CodeGenBase.config this)) i (CodeGenBase.conversationId this) g = Inr s"
    and "s \<noteq> ''Complete''" "s \<noteq> ''predict-ready''" "s \<noteq> ''InProgress''"
  shows "generateCode_loop this w g i =
     (Inl (if s = ''predict-failed'' \<or> s = ''debate-failed'' \<or> s = ''Failed''
           then ToolkitError ''Code generation failed''
           else ToolkitError (''Unknown status: '' @ s @ [CHR 0x0A])),
      [GetCodeGeneration (CodeGenBase.conversationId this) g (Inr s)])"
  using assms
  by (subst generateCode_loop.simps) (simp add: Let_def)

lemma loop_cancelled:
  assumes "isCancellationRequested w i"
  shows "generateCode_loop this w g i = (Inr ([], []), [])"
  using assms by (subst generateCode_loop.simps) simp

lemma loop_timeout:
  assumes "\<not> i < pollCount this" "\<not> isCancellationRequested w i"
  shows "generateCode_loop this w g i =
     (Inl (ToolkitError ''Code generation did not finish withing the expected time''), [])"
  using assms by (subst generateCode_loop.simps) simp

lemma filter_isRegisterProvider_pollsBefore [simp]:
  "filter isRegisterProvider (pollsBefore this w g k) = []"
  by (induction k) (simp_all add: pollsBefore_Suc)

lemma length_polls_pollsBefore [simp]:
  "length (filter isGetCodeGeneration (pollsBefore this w g k)) = k"
  by (induction k) (simp_all add: pollsBefore_Suc)

lemma loop_polls_final:
  assumes "\<not> continuesAt this w g i"
  shows "length (filter isGetCodeGeneration (snd (generateCode_loop this w g i)))
           \<le> (if i < pollCount this then 1 else 0)"
  using assms
  by (subst generateCode_loop.simps)
     (auto simp: continuesAt_def Let_def createFilePaths_eq split: sum.splits)

lemma loop_polls_bound_aux:
  "pollCount this - i = n \<Longrightarrow>
   length (filter isGetCodeGeneration (snd (generateCode_loop this w g i))) \<le> n"
proof (induction n arbitrary: i)
  case 0
  then have "\<not> continuesAt this w g i" by (simp add: continuesAt_def)
  from loop_polls_final [OF this] 0 show ?case by simp
next
  case (Suc n)
  show ?case
  proof (cases "continuesAt this w g i")
    case True
    have "pollCount this - Suc i = n" using Suc.prems by simp
    from Suc.IH [OF this] show ?thesis by (simp add: loop_continue [OF True])
  next
    case False
    from loop_polls_final [OF this] show ?thesis by (simp split: if_splits)
  qed
qed

lemma loop_polls_bound:
  "length (filter isGetCodeGeneration (snd (generateCode_loop this w g i))) \<le> pollCount this - i"
  by (rule loop_polls_bound_aux) simp

lemmas example_defs =
  exampleConfig_def exampleClient_def exampleWorld_def exampleFiles_def script_def
  new_CodeGenState_def new_CodeGenIterationState_def

text \<open>
  C1: when the remote job answers the first two polls \<open>InProgress\<close> and the third
  \<open>Complete\<close>, and neither the bound nor the token stops the loop at these three
  iterations, \<open>generateCode\<close> pauses exactly twice between its three polls, then calls
  \<open>exportResultArchive\<close>; when that returns files, it registers one provider per file, in
  order, at \<open>path.join(uploadId, filePath)\<close>, and returns the files with the list of their
  paths. When the export throws, the run throws that error after the same polls.
\<close>

theorem generateCode_two_pauses_then_export:
  assumes "getCodeGeneration (proxyClient (CodeGenBase.config this)) 0 (CodeGenBase.conversationId this) g
             = Inr ''InProgress''"
    and "getCodeGeneration (proxyClient (CodeGenBase.config this)) 1 (CodeGenBase.conversationId this) g
             = Inr ''InProgress''"
    and "getCodeGeneration (proxyClient (CodeGenBase.config this)) 2 (CodeGenBase.conversationId this) g
             = Inr ''Complete''"
    and "2 < pollCount this"
    and "\<forall>j<3. \<not> isCancellationRequested w j"
  shows "generateCode this w g =
     (let cid = CodeGenBase.conversationId this;
          polls = [GetCodeGeneration cid g (Inr ''InProgress''), SetTimeout (requestDelay this),
                   GetCodeGeneration cid g (Inr ''InProgress''), SetTimeout (requestDelay this),
                   GetCodeGeneration cid g (Inr ''Complete''), ExportResultArchive cid]
      in case exportResultArchive (proxyClient (CodeGenBase.config this)) cid of
           Inl e \<Rightarrow> (Inl e, polls)
         | Inr files \<Rightarrow>
             (Inr (files, map filePath files), polls @ registrations w (CodeGenBase.uploadId this) files))
     \<and> length (filter isSetTimeout (snd (generateCode this w g))) = 2
     \<and> length (filter isGetCodeGeneration (snd (generateCode this w g))) = 3
     \<and> reportedStatuses (snd (generateCode this w g)) = [''InProgress'', ''InProgress'', ''Complete'']"
proof -
  have k: "\<forall>j<2. continuesAt this w g j"
  proof (intro allI impI)
    fix j :: nat assume "j < 2"
    then have "j = 0 \<or> j = 1" by auto
    then show "continuesAt this w g j"
      using assms by (auto simp: continuesAt_def)
  qed
  have c2: "2 < pollCount this" "\<not> isCancellationRequested w 2"
      "getCodeGeneration (proxyClient (CodeGenBase.config this)) 2 (CodeGenBase.conversationId this) g
         = Inr ''Complete''"
    using assms by simp_all
  have p: "pollsBefore this w g 2 =
      [GetCodeGeneration (CodeGenBase.conversationId this) g (Inr ''InProgress''), SetTimeout (requestDelay this),
       GetCodeGeneration (CodeGenBase.conversationId this) g (Inr ''InProgress''), SetTimeout (requestDelay this)]"
    using assms(1,2) by (simp add: numeral_2_eq_2 pollsBefore_Suc)
  have run: "generateCode this w g =
     after [GetCodeGeneration (CodeGenBase.conversationId this) g (Inr ''InProgress''), SetTimeout (requestDelay this),
            GetCodeGeneration (CodeGenBase.conversationId this) g (Inr ''InProgress''), SetTimeout (requestDelay this)]
       (generateCode_loop this w g 2)"
    using generateCode_skip [OF k] by (simp add: p)
  show ?thesis
    by (simp add: run loop_complete [OF c2] Let_def split: sum.splits)
qed

theorem generateCode_two_pauses_then_export_witness:
  "generateCode
       (new_CodeGenState (exampleConfig (script [''InProgress'', ''InProgress'', ''Complete'']) (Inr None)) ''plan'' ''tab-1'')
       (exampleWorld neverCancelled) ''gen-1''
     = (Inr (exampleFiles, [''src/a.ts'', ''README.md'']),
        [GetCodeGeneration ''conv-1'' ''gen-1'' (Inr ''InProgress''), SetTimeout 10000,
         GetCodeGeneration ''conv-1'' ''gen-1'' (Inr ''InProgress''), SetTimeout 10000,
         GetCodeGeneration ''conv-1'' ''gen-1'' (Inr ''Complete''), ExportResultArchive ''conv-1'',
         RegisterProvider \<lparr> scheme = ''weaverbird'', path = ''upload-1/src/a.ts'' \<rparr> ''let a = 1'',
         RegisterProvider \<lparr> scheme = ''weaverbird'', path = ''upload-1/README.md'' \<rparr> ''hello''])"
  using generateCode_two_pauses_then_export
    [where w = "exampleWorld neverCancelled" and g = "''gen-1''"
       and this = "new_CodeGenState (exampleConfig (script [''InProgress'', ''InProgress'', ''Complete''])
                     (Inr None)) ''plan'' ''tab-1''"]
  by (simp add: example_defs neverCancelled_def registrations_def Let_def)

text \<open>
  C2: when the loop makes its poll number \<open>k\<close> (the polls before it were answered
  \<open>predict-ready\<close> or \<open>InProgress\<close>, and neither the bound nor the token stops iteration \<open>k\<close>)
  and the answer is \<open>Failed\<close>, \<open>predict-failed\<close> or \<open>debate-failed\<close>, \<open>generateCode\<close> throws
  \<open>ToolkitError('Code generation failed')\<close>; when the answer is none of the six statuses
  of the \<open>switch\<close>, it throws a \<open>ToolkitError\<close> whose message is \<open>Unknown status: \<close>, the
  status as received, and a line feed. In both cases this poll is the last event of the
  run: no provider is registered and no further poll is made.
\<close>

theorem generateCode_failure_statuses:
  assumes "\<forall>j<k. continuesAt this w g j"
    and "k < pollCount this" and "\<not> isCancellationRequested w k"
    and "getCodeGeneration (proxyClient (CodeGenBase.config this)) k (CodeGenBase.conversationId this) g = Inr s"
  shows "(s = ''Failed'' \<or> s = ''predict-failed'' \<or> s = ''debate-failed'' \<longrightarrow>
            generateCode this w g =
              (Inl (ToolkitError ''Code generation failed''),
               pollsBefore this w g k @ [GetCodeGeneration (CodeGenBase.conversationId this) g (Inr s)]))
       \<and> (s \<notin> {''Complete'', ''predict-ready'', ''InProgress'', ''predict-failed'', ''debate-failed'', ''Failed''} \<longrightarrow>
            generateCode this w g =
              (Inl (ToolkitError (''Unknown status: '' @ s @ [CHR 0x0A])),
               pollsBefore this w g k @ [GetCodeGeneration (CodeGenBase.conversationId this) g (Inr s)]))
       \<and> (s \<notin> {''Complete'', ''predict-ready'', ''InProgress''} \<longrightarrow>
            filter isRegisterProvider (snd (generateCode this w g)) = []
          \<and> length (filter isGetCodeGeneration (snd (generateCode this w g))) = Suc k)"
proof -
  have stop: "generateCode this w g =
        (Inl (if s = ''predict-failed'' \<or> s = ''debate-failed'' \<or> s = ''Failed''
           then ToolkitError ''Code generation failed''
           else ToolkitError (''Unknown status: '' @ s @ [CHR 0x0A])),
         pollsBefore this w g k @ [GetCodeGeneration (CodeGenBase.conversationId this) g (Inr s)])"
    if "s \<noteq> ''Complete''" "s \<noteq> ''predict-ready''" "s \<noteq> ''InProgress''"
    by (simp add: generateCode_skip [OF assms(1)] loop_stop [OF assms(2,3,4) that])
  show ?thesis
  proof (intro conjI impI)
    assume "s = ''Failed'' \<or> s = ''predict-failed'' \<or> s = ''debate-failed''"
    then show "generateCode this w g =
              (Inl (ToolkitError ''Code generation failed''),
               pollsBefore this w g k @ [GetCodeGeneration (CodeGenBase.conversationId this) g (Inr s)])"
      using stop by auto
  next
    assume "s \<notin> {''Complete'', ''predict-ready'', ''InProgress'', ''predict-failed'', ''debate-failed'', ''Failed''}"
    then show "generateCode this w g =
              (Inl (ToolkitError (''Unknown status: '' @ s @ [CHR 0x0A])),
               pollsBefore this w g k @ [GetCodeGeneration (CodeGenBase.conversationId this) g (Inr s)])"
      using stop by auto
  next
    assume "s \<notin> {''Complete'', ''predict-ready'', ''InProgress''}"
    then show "filter isRegisterProvider (snd (generateCode this w g)) = []"
      using stop by auto
  next
    assume "s \<notin> {''Complete'', ''predict-ready'', ''InProgress''}"
    then show "length (filter isGetCodeGeneration (snd (generateCode this w g))) = Suc k"
      using stop by auto
  qed
qed

theorem generateCode_failure_statuses_witness:
  "generateCode
       (new_CodeGenState (exampleConfig (script [''InProgress'', ''Failed'']) (Inr None)) ''plan'' ''tab-1'')
       (exampleWorld (\<lambda>k. False)) ''gen-1''
     = (Inl (ToolkitError ''Code generation failed''),
        [GetCodeGeneration ''conv-1'' ''gen-1'' (Inr ''InProgress''), SetTimeout 10000,
         GetCodeGeneration ''conv-1'' ''gen-1'' (Inr ''Failed'')])
   \<and> generateCode
       (new_CodeGenIterationState (exampleConfig (script [''weird-status'']) (Inr None)) [] [] ''tab-1'')
       (exampleWorld (\<lambda>k. False)) ''gen-1''
     = (Inl (ToolkitError (''Unknown status: weird-status'' @ [CHR 0x0A])),
        [GetCodeGeneration ''conv-1'' ''gen-1'' (Inr ''weird-status'')])"
proof -
  have "generateCode
       (new_CodeGenState (exampleConfig (script [''InProgress'', ''Failed'']) (Inr None)) ''plan'' ''tab-1'')
       (exampleWorld (\<lambda>k. False)) ''gen-1''
     = (Inl (ToolkitError ''Code generation failed''),
        [GetCodeGeneration ''conv-1'' ''gen-1'' (Inr ''InProgress''), SetTimeout 10000,
         GetCodeGeneration ''conv-1'' ''gen-1'' (Inr ''Failed'')])"
    using generateCode_failure_statuses
      [where k = 1 and w = "exampleWorld (\<lambda>k. False)" and g = "''gen-1''" and s = "''Failed''"
         and this = "new_CodeGenState (exampleConfig (script [''InProgress'', ''Failed'']) (Inr None)) ''plan'' ''tab-1''"]
    by (simp add: example_defs continuesAt_def pollsBefore_def)
  moreover have "generateCode
       (new_CodeGenIterationState (exampleConfig (script [''weird-status'']) (Inr None)) [] [] ''tab-1'')
       (exampleWorld (\<lambda>k. False)) ''gen-1''
     = (Inl (ToolkitError (''Unknown status: weird-status'' @ [CHR 0x0A])),
        [GetCodeGeneration ''conv-1'' ''gen-1'' (Inr ''weird-status'')])"
    using generateCode_failure_statuses
      [where k = 0 and w = "exampleWorld (\<lambda>k. False)" and g = "''gen-1''" and s = "''weird-status''"
         and this = "new_CodeGenIterationState (exampleConfig (script [''weird-status'']) (Inr None)) [] [] ''tab-1''"]
    by (simp add: example_defs)
  ultimately show ?thesis by simp
qed

text \<open>
  C3: when the loop condition is evaluated with the cancellation token signalled (at the
  first check, or at a later one after polls answered \<open>predict-ready\<close> or \<open>InProgress\<close>),
  \<open>generateCode\<close> leaves the loop and returns \<open>{ newFiles: [], newFilePaths: [] }\<close>; it
  throws nothing and makes no call after the check.
\<close>

theorem generateCode_cancelled_returns_empty:
  assumes "\<forall>j<k. continuesAt this w g j" and "isCancellationRequested w k"
  shows "generateCode this w g = (Inr ([], []), pollsBefore this w g k)"
  by (simp add: generateCode_skip [OF assms(1)] loop_cancelled [OF assms(2)])

theorem generateCode_cancelled_returns_empty_witness:
  "generateCode
       (new_CodeGenState (exampleConfig (script [''Complete'']) (Inr None)) ''plan'' ''tab-1'')
       (exampleWorld (\<lambda>k. True)) ''gen-1''
     = (Inr ([], []), [])
   \<and> generateCode
       (new_CodeGenState (exampleConfig (script [''InProgress'', ''Complete'']) (Inr None)) ''plan'' ''tab-1'')
       (exampleWorld (\<lambda>k. 1 \<le> k)) ''gen-1''
     = (Inr ([], []), [GetCodeGeneration ''conv-1'' ''gen-1'' (Inr ''InProgress''), SetTimeout 10000])"
proof -
  have "generateCode
       (new_CodeGenState (exampleConfig (script [''Complete'']) (Inr None)) ''plan'' ''tab-1'')
       (exampleWorld (\<lambda>k. True)) ''gen-1''
     = (Inr ([], []), [])"
    using generateCode_cancelled_returns_empty
      [where k = 0 and g = "''gen-1''" and w = "exampleWorld (\<lambda>k. True)"
         and this = "new_CodeGenState (exampleConfig (script [''Complete'']) (Inr None)) ''plan'' ''tab-1''"]
    by (simp add: example_defs)
  moreover have "generateCode
       (new_CodeGenState (exampleConfig (script [''InProgress'', ''Complete'']) (Inr None)) ''plan'' ''tab-1'')
       (exampleWorld (\<lambda>k. 1 \<le> k)) ''gen-1''
     = (Inr ([], []), [GetCodeGeneration ''conv-1'' ''gen-1'' (Inr ''InProgress''), SetTimeout 10000])"
    using generateCode_cancelled_returns_empty
      [where k = 1 and g = "''gen-1''" and w = "exampleWorld (\<lambda>k. 1 \<le> k)"
         and this = "new_CodeGenState (exampleConfig (script [''InProgress'', ''Complete'']) (Inr None)) ''plan'' ''tab-1''"]
    by (simp add: example_defs continuesAt_def pollsBefore_def)
  ultimately show ?thesis by simp
qed

text \<open>
  C4: both subclasses of \<open>CodeGenBase\<close> are built with \<open>pollCount = 180\<close>, and with that
  bound no run of \<open>generateCode\<close> makes more than 180 polls. When each of the 180 polls is
  answered \<open>InProgress\<close> and the token is never signalled, the run makes exactly 180 polls
  and throws \<open>ToolkitError('Code generation did not finish withing the expected time')\<close>,
  which is not the error thrown for a failed job.
\<close>

theorem generateCode_poll_bound_and_timeout:
  "pollCount (new_CodeGenState cfg a t) = 180
   \<and> pollCount (new_CodeGenIterationState cfg a fs t) = 180
   \<and> (pollCount this = 180 \<longrightarrow>
        length (filter isGetCodeGeneration (snd (generateCode this w g))) \<le> 180
      \<and> ((\<forall>j<180. getCodeGeneration (proxyClient (CodeGenBase.config this)) j
                       (CodeGenBase.conversationId this) g = Inr ''InProgress'')
           \<and> (\<forall>j. \<not> isCancellationRequested w j) \<longrightarrow>
          generateCode this w g =
            (Inl (ToolkitError ''Code generation did not finish withing the expected time''),
             pollsBefore this w g 180)
        \<and> length (filter isGetCodeGeneration (snd (generateCode this w g))) = 180
        \<and> ToolkitError ''Code generation did not finish withing the expected time''
            \<noteq> ToolkitError ''Code generation failed''))"
proof (intro conjI impI)
  show "pollCount (new_CodeGenState cfg a t) = 180" by (simp add: new_CodeGenState_def)
  show "pollCount (new_CodeGenIterationState cfg a fs t) = 180"
    by (simp add: new_CodeGenIterationState_def)
next
  assume "pollCount this = 180"
  then show "length (filter isGetCodeGeneration (snd (generateCode this w g))) \<le> 180"
    using loop_polls_bound [of this w g 0] by (simp add: generateCode_def)
next
  assume pc: "pollCount this = 180"
    and h: "(\<forall>j<180. getCodeGeneration (proxyClient (CodeGenBase.config this)) j
                       (CodeGenBase.conversationId this) g = Inr ''InProgress'')
           \<and> (\<forall>j. \<not> isCancellationRequested w j)"
  have "\<forall>j<180. continuesAt this w g j"
    using pc h by (simp add: continuesAt_def)
  from generateCode_skip [OF this]
  show run: "generateCode this w g =
            (Inl (ToolkitError ''Code generation did not finish withing the expected time''),
             pollsBefore this w g 180)"
    using pc h by (simp add: loop_timeout)
  then show "length (filter isGetCodeGeneration (snd (generateCode this w g))) = 180"
    by simp
next
  show "ToolkitError ''Code generation did not finish withing the expected time''
            \<noteq> ToolkitError ''Code generation failed''" by simp
qed

theorem generateCode_poll_bound_and_timeout_witness:
  "fst (generateCode
       (new_CodeGenState (exampleConfig (\<lambda>k. Inr ''InProgress'') (Inr None)) ''plan'' ''tab-1'')
       (exampleWorld (\<lambda>k. False)) ''gen-1'')
     = Inl (ToolkitError ''Code generation did not finish withing the expected time'')
   \<and> length (filter isGetCodeGeneration (snd (generateCode
       (new_CodeGenState (exampleConfig (\<lambda>k. Inr ''InProgress'') (Inr None)) ''plan'' ''tab-1'')
       (exampleWorld (\<lambda>k. False)) ''gen-1''))) = 180"
  using generateCode_poll_bound_and_timeout
      [where w = "exampleWorld (\<lambda>k. False)" and g = "''gen-1''"
         and this = "new_CodeGenState (exampleConfig (\<lambda>k. Inr ''InProgress'') (Inr None)) ''plan'' ''tab-1''"]
  by (simp add: example_defs)

section \<open>Properties of the states\<close>

lemma startsWith_append: "startsWith (pat @ post) pat"
  by (induction pat) simp_all

lemma indexOf_from_found: "indexOf_from (pre @ pat @ post) pat k \<noteq> - 1"
proof (induction pre arbitrary: k)
  case Nil
  show ?case using startsWith_append [of pat post] by (cases "pat @ post") simp_all
next
  case (Cons c pre)
  then show ?case by simp
qed

lemma indexOf_found: "indexOf (pre @ pat @ post) pat \<noteq> - 1"
  by (simp add: indexOf_def indexOf_from_found)

lemma indexOf_from_absent:
  "p \<notin> set s \<Longrightarrow> indexOf_from s (p # ps) k = - 1"
  by (induction s arbitrary: k) auto

lemma no_script_without_lt: "CHR ''<'' \<notin> set s \<Longrightarrow> \<not> hasScriptTag s"
  by (simp add: hasScriptTag_def indexOf_def indexOf_from_absent)

lemma msgMissing_sentinel [simp]: "\<not> msgMissing (Some (pre @ ''MOCK CODE'' @ post))"
  by simp

lemma PrepareRefinementState_without_message:
  assumes "msgMissing (msg action)"
    and "prepareRepoData w (workspaceRoot (PrepareRefinementState.config p))
           (SessionStateConfigBase.conversationId (PrepareRefinementState.config p)) = Inr repo"
    and "createUploadUrl (proxyClient (PrepareRefinementState.config p))
           (SessionStateConfigBase.conversationId (PrepareRefinementState.config p))
           (zipFileChecksum repo) = Inr up"
    and "uploadCode w (uploadUrl up) (zipFileBuffer repo) (kmsKeyArn up) = Inr u"
  shows "PrepareRefinementState_interact p action w =
           \<lparr> self = p, returned = Inl UserMessageNotFoundError,
             events = [PrepareRepoData (workspaceRoot (PrepareRefinementState.config p))
                         (SessionStateConfigBase.conversationId (PrepareRefinementState.config p)),
                       CreateUploadUrl (SessionStateConfigBase.conversationId (PrepareRefinementState.config p))
                         (zipFileChecksum repo),
                       UploadCode (uploadUrl up) (zipFileBuffer repo) (kmsKeyArn up)] \<rparr>"
  using assms
  by (simp add: PrepareRefinementState_interact_def RefinementState_interact_def rethrow_def Let_def)

text \<open>
  C5, as the code has it: \<open>RefinementState.interact\<close> and
  \<open>RefinementIterationState.interact\<close>, the two methods that test \<open>!action.msg\<close>, throw
  \<open>UserMessageNotFoundError\<close> when the message is absent or empty; the call has made no
  call to a collaborator, remote or other, and has assigned nothing.
  \<open>PrepareRefinementState.interact\<close> hands the action to a new \<open>RefinementState\<close> only after
  its snapshot and upload: when these succeed and the message is absent or empty, it
  throws \<open>UserMessageNotFoundError\<close> too, after the calls to \<open>prepareRepoData\<close>,
  \<open>createUploadUrl\<close> and \<open>uploadCode\<close>, the last two of them remote.
\<close>

theorem interact_without_message:
  assumes "msgMissing (msg action)"
  shows "RefinementState_interact r action w =
           \<lparr> self = r, returned = Inl UserMessageNotFoundError, events = [] \<rparr>
       \<and> RefinementIterationState_interact ri action w =
           \<lparr> self = ri, returned = Inl UserMessageNotFoundError, events = [] \<rparr>
       \<and> filter isRemoteCall (events (RefinementState_interact r action w)) = []
       \<and> filter isRemoteCall (events (RefinementIterationState_interact ri action w)) = []
       \<and> (prepareRepoData w (workspaceRoot (PrepareRefinementState.config p))
             (SessionStateConfigBase.conversationId (PrepareRefinementState.config p)) = Inr repo
           \<and> createUploadUrl (proxyClient (PrepareRefinementState.config p))
               (SessionStateConfigBase.conversationId (PrepareRefinementState.config p))
               (zipFileChecksum repo) = Inr up
           \<and> uploadCode w (uploadUrl up) (zipFileBuffer repo) (kmsKeyArn up) = Inr u
          \<longrightarrow> returned (PrepareRefinementState_interact p action w) = Inl UserMessageNotFoundError
            \<and> self (PrepareRefinementState_interact p action w) = p
            \<and> filter isRemoteCall (events (PrepareRefinementState_interact p action w))
                = [CreateUploadUrl (SessionStateConfigBase.conversationId (PrepareRefinementState.config p))
                     (zipFileChecksum repo),
                   UploadCode (uploadUrl up) (zipFileBuffer repo) (kmsKeyArn up)])"
  using assms
  by (auto simp: RefinementState_interact_def RefinementIterationState_interact_def rethrow_def
        PrepareRefinementState_without_message)

theorem interact_without_message_witness:
  "msgMissing (msg \<lparr> msg = Some [] \<rparr>) \<and> msgMissing (msg \<lparr> msg = None \<rparr>)
   \<and> returned (RefinementState_interact
        (new_RefinementState (exampleConfig (script []) (Inr (Some ''a plan''))) [] ''tab-1'')
        \<lparr> msg = Some [] \<rparr> (exampleWorld neverCancelled)) = Inl UserMessageNotFoundError
   \<and> returned (RefinementIterationState_interact
        (new_RefinementIterationState (exampleConfig (script []) (Inr (Some ''a plan''))) [] ''tab-1'')
        \<lparr> msg = None \<rparr> (exampleWorld neverCancelled)) = Inl UserMessageNotFoundError
   \<and> filter isRemoteCall (events (PrepareRefinementState_interact
        (new_PrepareRefinementState (exampleConfigBase (script []) (Inr (Some ''a plan''))) [] ''tab-1'')
        \<lparr> msg = None \<rparr> (exampleWorld neverCancelled)))
      = [CreateUploadUrl ''conv-1'' ''sum'', UploadCode ''https://upload'' ''zip'' ''key'']"
proof -
  have h1: "msgMissing (msg \<lparr> msg = Some [] \<rparr>)" by simp
  have h2: "msgMissing (msg \<lparr> msg = None \<rparr>)" by simp
  show ?thesis
    using h1 h2 interact_without_message [OF h1]
      interact_without_message [OF h2,
        where w = "exampleWorld neverCancelled"
          and p = "new_PrepareRefinementState (exampleConfigBase (script []) (Inr (Some ''a plan''))) [] ''tab-1''"
          and repo = "\<lparr> zipFileBuffer = ''zip'', zipFileChecksum = ''sum'' \<rparr>"
          and up = "\<lparr> uploadUrl = ''https://upload'', UploadUrl.uploadId = ''upload-2'', kmsKeyArn = ''key'' \<rparr>"
          and u = "()"]
    by (simp add: new_PrepareRefinementState_def exampleConfigBase_def exampleClient_def exampleWorld_def)
qed

text \<open>
  The claim C5 as written fails for \<open>PrepareRefinementState\<close>: with no message its
  \<open>interact\<close> throws \<open>UserMessageNotFoundError\<close>, but it has called \<open>createUploadUrl\<close> and
  \<open>uploadCode\<close> before.
\<close>

theorem PrepareRefinementState_uploads_before_failing:
  "PrepareRefinementState_interact
       (new_PrepareRefinementState (exampleConfigBase (script []) (Inr (Some ''a plan''))) [] ''tab-1'')
       \<lparr> msg = None \<rparr> (exampleWorld neverCancelled)
     = \<lparr> self = new_PrepareRefinementState (exampleConfigBase (script []) (Inr (Some ''a plan''))) [] ''tab-1'',
         returned = Inl UserMessageNotFoundError,
         events = [PrepareRepoData ''/ws'' ''conv-1'', CreateUploadUrl ''conv-1'' ''sum'',
                   UploadCode ''https://upload'' ''zip'' ''key''] \<rparr>
   \<and> filter isRemoteCall (events (PrepareRefinementState_interact
       (new_PrepareRefinementState (exampleConfigBase (script []) (Inr (Some ''a plan''))) [] ''tab-1'')
       \<lparr> msg = None \<rparr> (exampleWorld neverCancelled))) \<noteq> []"
  by (simp add: PrepareRefinementState_interact_def RefinementState_interact_def rethrow_def
        new_PrepareRefinementState_def new_RefinementState_def withUploadId_def
        exampleConfigBase_def exampleClient_def exampleWorld_def Let_def)

text \<open>
  C6, as the code has it: when \<open>generatePlan\<close> resolves to \<open>undefined\<close>, the fixed fallback
  message takes the place of the plan; any string it resolves to, the empty one included,
  is kept. The approach stored, handed to the next state and displayed (followed by a
  line feed) is what \<open>sanitizeHtml\<close> returns for that text, so it contains no script tag
  whenever the output of \<open>sanitizeHtml\<close> never does. This holds of \<open>RefinementState\<close> and,
  off the mock path, of \<open>RefinementIterationState\<close>.
\<close>

theorem interact_approach_sanitized:
  assumes "\<not> msgMissing (msg action)"
    and "generatePlan (proxyClient (RefinementState.config r))
           (SessionStateConfigBase.conversationId (RefinementState.config r))
           (SessionStateConfig.uploadId (RefinementState.config r)) (msgText (msg action)) = Inr plan"
    and "\<not> msgMissing (msg action')"
    and "indexOf (msgText (msg action')) ''MOCK CODE'' = - 1"
    and "generatePlan (proxyClient (RefinementIterationState.config ri))
           (SessionStateConfigBase.conversationId (RefinementIterationState.config ri))
           (SessionStateConfig.uploadId (RefinementIterationState.config ri)) (msgText (msg action')) = Inr plan'"
  shows "RefinementState.approach (self (RefinementState_interact r action w))
           = sanitizeHtml w (case plan of None \<Rightarrow> fallbackApproach | Some p \<Rightarrow> p)
       \<and> returned (RefinementState_interact r action w)
           = Inr \<lparr> nextState = RefinementIteration
                     (new_RefinementIterationState
                        ((RefinementState.config r)\<lparr> SessionStateConfigBase.conversationId :=
                                                       RefinementState.conversationId r \<rparr>)
                        (sanitizeHtml w (case plan of None \<Rightarrow> fallbackApproach | Some p \<Rightarrow> p))
                        (RefinementState.tabID r)),
                   content = Some (sanitizeHtml w (case plan of None \<Rightarrow> fallbackApproach | Some p \<Rightarrow> p)
                                   @ [CHR 0x0A]) \<rparr>
       \<and> RefinementIterationState.approach (self (RefinementIterationState_interact ri action' w))
           = sanitizeHtml w (case plan' of None \<Rightarrow> fallbackApproach | Some p \<Rightarrow> p)
       \<and> returned (RefinementIterationState_interact ri action' w)
           = Inr \<lparr> nextState = RefinementIteration
                     (new_RefinementIterationState (RefinementIterationState.config ri)
                        (sanitizeHtml w (case plan' of None \<Rightarrow> fallbackApproach | Some p \<Rightarrow> p))
                        (RefinementIterationState.tabID ri)),
                   content = Some (sanitizeHtml w (case plan' of None \<Rightarrow> fallbackApproach | Some p \<Rightarrow> p)
                                   @ [CHR 0x0A]) \<rparr>
       \<and> ((\<forall>s. \<not> hasScriptTag (sanitizeHtml w s)) \<longrightarrow>
            \<not> hasScriptTag (RefinementState.approach (self (RefinementState_interact r action w)))
          \<and> \<not> hasScriptTag (RefinementIterationState.approach
                               (self (RefinementIterationState_interact ri action' w))))"
proof -
  have n: "nullish q fallbackApproach = (case q of None \<Rightarrow> fallbackApproach | Some p \<Rightarrow> p)" for q
    by (cases q) simp_all
  have a: "RefinementState.approach (self (RefinementState_interact r action w))
           = sanitizeHtml w (case plan of None \<Rightarrow> fallbackApproach | Some p \<Rightarrow> p)"
    using assms(1,2) by (simp add: RefinementState_interact_def Let_def n)
  have b: "RefinementIterationState.approach (self (RefinementIterationState_interact ri action' w))
           = sanitizeHtml w (case plan' of None \<Rightarrow> fallbackApproach | Some p \<Rightarrow> p)"
    using assms(3,4,5) by (simp add: RefinementIterationState_interact_def Let_def n)
  have c: "returned (RefinementState_interact r action w)
           = Inr \<lparr> nextState = RefinementIteration
                     (new_RefinementIterationState
                        ((RefinementState.config r)\<lparr> SessionStateConfigBase.conversationId :=
                                                       RefinementState.conversationId r \<rparr>)
                        (sanitizeHtml w (case plan of None \<Rightarrow> fallbackApproach | Some p \<Rightarrow> p))
                        (RefinementState.tabID r)),
                   content = Some (sanitizeHtml w (case plan of None \<Rightarrow> fallbackApproach | Some p \<Rightarrow> p)
                                   @ [CHR 0x0A]) \<rparr>"
    using assms(1,2) by (simp add: RefinementState_interact_def Let_def n)
  have d: "returned (RefinementIterationState_interact ri action' w)
           = Inr \<lparr> nextState = RefinementIteration
                     (new_RefinementIterationState (RefinementIterationState.config ri)
                        (sanitizeHtml w (case plan' of None \<Rightarrow> fallbackApproach | Some p \<Rightarrow> p))
                        (RefinementIterationState.tabID ri)),
                   content = Some (sanitizeHtml w (case plan' of None \<Rightarrow> fallbackApproach | Some p \<Rightarrow> p)
                                   @ [CHR 0x0A]) \<rparr>"
    using assms(3,4,5) by (simp add: RefinementIterationState_interact_def Let_def n)
  show ?thesis
    unfolding a b c d by simp
qed

lemma exampleWorld_sanitizer: "\<not> hasScriptTag (sanitizeHtml (exampleWorld c) s)"
  by (rule no_script_without_lt) (simp add: exampleWorld_def)

theorem interact_approach_sanitized_witness:
  "RefinementState.approach (self (RefinementState_interact
       (new_RefinementState (exampleConfig (script []) (Inr (Some ''<script>alert(1)</script>Use a map''))) [] ''tab-1'')
       \<lparr> msg = Some ''add a cache'' \<rparr> (exampleWorld neverCancelled)))
     = ''script>alert(1)/script>Use a map''
   \<and> \<not> hasScriptTag (RefinementState.approach (self (RefinementState_interact
       (new_RefinementState (exampleConfig (script []) (Inr (Some ''<script>alert(1)</script>Use a map''))) [] ''tab-1'')
       \<lparr> msg = Some ''add a cache'' \<rparr> (exampleWorld neverCancelled))))
   \<and> RefinementIterationState.approach (self (RefinementIterationState_interact
       (new_RefinementIterationState (exampleConfig (script []) (Inr None)) ''old plan'' ''tab-1'')
       \<lparr> msg = Some ''add a cache'' \<rparr> (exampleWorld neverCancelled)))
     = fallbackApproach"
  using interact_approach_sanitized
    [where action = "\<lparr> msg = Some ''add a cache'' \<rparr>" and w = "exampleWorld neverCancelled"
       and action' = "\<lparr> msg = Some ''add a cache'' \<rparr>"
       and r = "new_RefinementState (exampleConfig (script []) (Inr (Some ''<script>alert(1)</script>Use a map''))) [] ''tab-1''"
       and plan = "Some ''<script>alert(1)</script>Use a map''"
       and ri = "new_RefinementIterationState (exampleConfig (script []) (Inr None)) ''old plan'' ''tab-1''"
       and plan' = None]
    exampleWorld_sanitizer [of neverCancelled]
  by (simp add: exampleConfig_def exampleClient_def new_RefinementState_def
        new_RefinementIterationState_def indexOf_def)
     (simp add: exampleWorld_def fallbackApproach_def)

text \<open>
  The claim C6 as written fails for the empty plan: \<open>''\<close> is not \<open>undefined\<close>, so \<open>??\<close> keeps
  it, and the approach stored is the sanitized empty string, not the fallback message.
\<close>

theorem empty_plan_not_replaced:
  "RefinementState.approach (self (RefinementState_interact
       (new_RefinementState (exampleConfig (script []) (Inr (Some []))) [] ''tab-1'')
       \<lparr> msg = Some ''add a cache'' \<rparr> (exampleWorld neverCancelled))) = []
   \<and> RefinementState.approach (self (RefinementState_interact
       (new_RefinementState (exampleConfig (script []) (Inr (Some []))) [] ''tab-1'')
       \<lparr> msg = Some ''add a cache'' \<rparr> (exampleWorld neverCancelled)))
     \<noteq> sanitizeHtml (exampleWorld neverCancelled) fallbackApproach
   \<and> returned (RefinementState_interact
       (new_RefinementState (exampleConfig (script []) (Inr (Some []))) [] ''tab-1'')
       \<lparr> msg = Some ''add a cache'' \<rparr> (exampleWorld neverCancelled))
     = Inr \<lparr> nextState = RefinementIteration
               (new_RefinementIterationState (exampleConfig (script []) (Inr (Some []))) [] ''tab-1''),
             content = Some [CHR 0x0A] \<rparr>"
  by (simp add: RefinementState_interact_def exampleConfig_def exampleClient_def exampleWorld_def
        new_RefinementState_def new_RefinementIterationState_def fallbackApproach_def Let_def)

text \<open>
  C7: a message that contains \<open>MOCK CODE\<close> anywhere makes \<open>RefinementIterationState.interact\<close>
  return what \<open>interact\<close> of a new \<open>MockCodeGenState\<close> returns, whatever surrounds the
  sentinel. \<open>MockCodeGenState.interact\<close> never throws and always returns a new
  \<open>RefinementState\<close> with an empty interaction; when \<open>fs.stat\<close> of the mock-data directory
  throws or resolves to a falsy value, it has registered no file and assigned nothing.
\<close>

theorem mock_sentinel_delegates:
  assumes "msg action = Some (pre @ ''MOCK CODE'' @ post)"
  shows "RefinementIterationState_interact ri action w =
           \<lparr> self = ri,
             returned = returned (MockCodeGenState_interact
                          (new_MockCodeGenState w (RefinementIterationState.config ri)
                             (RefinementIterationState.approach ri) (RefinementIterationState.tabID ri))
                          action w),
             events = events (MockCodeGenState_interact
                          (new_MockCodeGenState w (RefinementIterationState.config ri)
                             (RefinementIterationState.approach ri) (RefinementIterationState.tabID ri))
                          action w) \<rparr>
       \<and> returned (MockCodeGenState_interact m action w) =
           Inr \<lparr> nextState = Refinement
                   (new_RefinementState
                      ((MockCodeGenState.config m)\<lparr> SessionStateConfigBase.conversationId :=
                                                       MockCodeGenState.conversationId m \<rparr>)
                      (MockCodeGenState.approach m) (MockCodeGenState.tabID m)),
                 content = None \<rparr>
       \<and> ((\<exists>e. stat w (path_join w (workspaceRoot (MockCodeGenState.config m)) ''./mock-data'') = Inl e)
           \<or> stat w (path_join w (workspaceRoot (MockCodeGenState.config m)) ''./mock-data'') = Inr False
          \<longrightarrow> self (MockCodeGenState_interact m action w) = m
            \<and> events (MockCodeGenState_interact m action w)
                = [Stat (path_join w (workspaceRoot (MockCodeGenState.config m)) ''./mock-data'')])"
proof (intro conjI impI)
  show "RefinementIterationState_interact ri action w =
           \<lparr> self = ri,
             returned = returned (MockCodeGenState_interact
                          (new_MockCodeGenState w (RefinementIterationState.config ri)
                             (RefinementIterationState.approach ri) (RefinementIterationState.tabID ri))
                          action w),
             events = events (MockCodeGenState_interact
                          (new_MockCodeGenState w (RefinementIterationState.config ri)
                             (RefinementIterationState.approach ri) (RefinementIterationState.tabID ri))
                          action w) \<rparr>"
    using assms indexOf_found [of pre "''MOCK CODE''" post]
    by (simp add: RefinementIterationState_interact_def Let_def)
next
  show "returned (MockCodeGenState_interact m action w) =
           Inr \<lparr> nextState = Refinement
                   (new_RefinementState
                      ((MockCodeGenState.config m)\<lparr> SessionStateConfigBase.conversationId :=
                                                       MockCodeGenState.conversationId m \<rparr>)
                      (MockCodeGenState.approach m) (MockCodeGenState.tabID m)),
                 content = None \<rparr>"
    by (simp add: MockCodeGenState_interact_def Let_def split: sum.splits prod.splits)
next
  assume a: "(\<exists>e. stat w (path_join w (workspaceRoot (MockCodeGenState.config m)) ''./mock-data'') = Inl e)
           \<or> stat w (path_join w (workspaceRoot (MockCodeGenState.config m)) ''./mock-data'') = Inr False"
  then show "self (MockCodeGenState_interact m action w) = m"
    by (auto simp: MockCodeGenState_interact_def Let_def)
  from a show "events (MockCodeGenState_interact m action w)
                = [Stat (path_join w (workspaceRoot (MockCodeGenState.config m)) ''./mock-data'')]"
    by (auto simp: MockCodeGenState_interact_def Let_def)
qed

theorem mock_sentinel_delegates_witness:
  "RefinementIterationState_interact
       (new_RefinementIterationState (exampleConfig (script []) (Inr None)) ''old plan'' ''tab-1'')
       \<lparr> msg = Some ''please MOCK CODE now'' \<rparr> (exampleWorld neverCancelled)
     = \<lparr> self = new_RefinementIterationState (exampleConfig (script []) (Inr None)) ''old plan'' ''tab-1'',
         returned = Inr \<lparr> nextState = Refinement
                             (new_RefinementState (exampleConfig (script []) (Inr None)) ''old plan'' ''tab-1''),
                           content = None \<rparr>,
         events = [Stat ''/ws/./mock-data''] \<rparr>"
proof -
  have h: "msg \<lparr> msg = Some ''please MOCK CODE now'' \<rparr> = Some (''please '' @ ''MOCK CODE'' @ '' now'')"
    by simp
  have s: "(\<exists>e. stat (exampleWorld neverCancelled)
                  (path_join (exampleWorld neverCancelled)
                     (workspaceRoot (MockCodeGenState.config
                        (new_MockCodeGenState (exampleWorld neverCancelled) (exampleConfig (script []) (Inr None))
                           ''old plan'' ''tab-1''))) ''./mock-data'') = Inl e)"
    by (simp add: exampleWorld_def)
  show ?thesis
    using mock_sentinel_delegates [OF h,
        where w = "exampleWorld neverCancelled"
          and ri = "new_RefinementIterationState (exampleConfig (script []) (Inr None)) ''old plan'' ''tab-1''"
          and m = "new_MockCodeGenState (exampleWorld neverCancelled) (exampleConfig (script []) (Inr None))
                     ''old plan'' ''tab-1''"] s
    by (simp add: new_RefinementIterationState_def new_MockCodeGenState_def new_RefinementState_def)
       (simp add: exampleWorld_def exampleConfig_def)
qed

text \<open>
  C8 at a failing input: a plan request and a poll rejected with an error that is not a
  \<open>ToolkitError\<close>. \<open>RefinementState\<close> and \<open>CodeGenState\<close> chain it under
  \<open>'Server side error'\<close>; \<open>RefinementIterationState\<close> and \<open>CodeGenIterationState\<close>, which make the
  same remote calls without a \<open>try\<close>, throw it as it is.
\<close>

theorem iteration_states_do_not_wrap:
  "returned (RefinementState_interact
       (new_RefinementState (exampleConfig (script []) (Inl (OtherError ''socket hang up''))) [] ''tab-1'')
       \<lparr> msg = Some ''add a cache'' \<rparr> (exampleWorld neverCancelled))
     = Inl (ToolkitError_chain (OtherError ''socket hang up'') ''Server side error'')
   \<and> returned (RefinementIterationState_interact
       (new_RefinementIterationState (exampleConfig (script []) (Inl (OtherError ''socket hang up''))) [] ''tab-1'')
       \<lparr> msg = Some ''add a cache'' \<rparr> (exampleWorld neverCancelled))
     = Inl (OtherError ''socket hang up'')
   \<and> returned (CodeGenState_interact
       (new_CodeGenState (exampleConfig failingPolls (Inr None)) ''plan'' ''tab-1'')
       \<lparr> msg = Some ''add a cache'' \<rparr> (exampleWorld neverCancelled))
     = Inl (ToolkitError_chain (OtherError ''socket hang up'') ''Server side error'')
   \<and> returned (CodeGenIterationState_interact
       (new_CodeGenIterationState (exampleConfig failingPolls (Inr None)) [] [] ''tab-1'')
       \<lparr> msg = Some ''add a cache'' \<rparr> (exampleWorld neverCancelled))
     = Inl (OtherError ''socket hang up'')"
  by (simp add: RefinementState_interact_def RefinementIterationState_interact_def
        CodeGenState_interact_def CodeGenIterationState_interact_def generateCode_def
        generateCode_loop.simps [of _ _ _ 0] rethrow_def indexOf_def
        example_defs new_RefinementState_def new_RefinementIterationState_def
        neverCancelled_def failingPolls_def Let_def)

lemma nextState_of_RefinementState:
  "returned (RefinementState_interact s act w) = Inr r \<Longrightarrow>
   \<exists>c a t. nextState r = RefinementIteration (new_RefinementIterationState c a t)"
  by (auto simp: RefinementState_interact_def Let_def split: if_splits sum.splits) blast+

lemma nextState_of_MockCodeGenState:
  "returned (MockCodeGenState_interact s act w) = Inr r \<Longrightarrow>
   \<exists>c a t. nextState r = Refinement (new_RefinementState c a t)"
  by (auto simp: MockCodeGenState_interact_def Let_def split: sum.splits prod.splits) blast+

lemma nextState_of_RefinementIterationState:
  "returned (RefinementIterationState_interact s act w) = Inr r \<Longrightarrow>
   (\<exists>c a t. nextState r = RefinementIteration (new_RefinementIterationState c a t))
   \<or> (\<exists>c a t. nextState r = Refinement (new_RefinementState c a t))"
  by (auto simp: RefinementIterationState_interact_def Let_def
        dest: nextState_of_MockCodeGenState split: if_splits sum.splits) blast+

lemma nextState_of_PrepareRefinementState:
  "returned (PrepareRefinementState_interact s act w) = Inr r \<Longrightarrow>
   \<exists>c a t. nextState r = RefinementIteration (new_RefinementIterationState c a t)"
  by (auto simp: PrepareRefinementState_interact_def Let_def
        dest: nextState_of_RefinementState split: sum.splits)

lemma nextState_of_CodeGenState:
  "returned (CodeGenState_interact s act w) = Inr r \<Longrightarrow>
   \<exists>c a fs t. nextState r = PrepareIteration (new_PrepareIterationState c a fs t)"
  by (auto simp: CodeGenState_interact_def Let_def split: sum.splits prod.splits) blast+

lemma nextState_of_CodeGenIterationState:
  "returned (CodeGenIterationState_interact s act w) = Inr r \<Longrightarrow>
   \<exists>c a fs t. nextState r = PrepareIteration (new_PrepareIterationState c a fs t)"
  by (auto simp: CodeGenIterationState_interact_def Let_def split: sum.splits prod.splits) blast+

lemma nextState_of_PrepareIterationState:
  "returned (PrepareIterationState_interact s act w) = Inr r \<Longrightarrow>
   \<exists>c a fs t. nextState r = PrepareIteration (new_PrepareIterationState c a fs t)"
  by (auto simp: PrepareIterationState_interact_def Let_def
        dest: nextState_of_CodeGenIterationState split: sum.splits)

lemma phase_of_RefinementState:
  "RefinementState.phase (self (RefinementState_interact s act w)) = RefinementState.phase s"
  by (simp add: RefinementState_interact_def Let_def split: sum.splits)

lemma phase_of_RefinementIterationState:
  "RefinementIterationState.phase (self (RefinementIterationState_interact s act w))
     = RefinementIterationState.phase s"
  by (simp add: RefinementIterationState_interact_def Let_def split: sum.splits)

lemma phase_of_PrepareRefinementState:
  "PrepareRefinementState.phase (self (PrepareRefinementState_interact s act w))
     = PrepareRefinementState.phase s"
  by (simp add: PrepareRefinementState_interact_def Let_def split: sum.splits)

lemma phase_of_CodeGenState:
  "CodeGenBase.phase (self (CodeGenState_interact s act w)) = CodeGenBase.phase s"
  by (simp add: CodeGenState_interact_def Let_def split: sum.splits prod.splits)

lemma phase_of_CodeGenIterationState:
  "CodeGenBase.phase (self (CodeGenIterationState_interact s act w)) = CodeGenBase.phase s"
  by (simp add: CodeGenIterationState_interact_def Let_def split: sum.splits prod.splits)

lemma phase_of_PrepareIterationState:
  "PrepareIterationState.phase (self (PrepareIterationState_interact s act w))
     = PrepareIterationState.phase s"
  by (simp add: PrepareIterationState_interact_def Let_def split: sum.splits)

text \<open>
  C9, as the code has it: seven of the eight classes are constructed with a phase
  (\<open>Init\<close> for \<open>ConversationNotStartedState\<close>, \<open>Approach\<close> for the three refinement states,
  \<open>Codegen\<close> for the three code generation states); \<open>MockCodeGenState\<close> has no \<open>phase\<close>
  field, so reading it gives \<open>undefined\<close>. For every state, \<open>interact\<close> leaves the phase of
  the object it is called on as it was (absent stays absent) and leaves the object in
  its class; the next state it returns is the result of a constructor call.
\<close>

theorem phase_fixed_at_construction:
  "phaseOf (ConversationNotStarted (new_ConversationNotStartedState a t)) = Some Init
   \<and> phaseOf (PrepareRefinement (new_PrepareRefinementState cb a t)) = Some Approach
   \<and> phaseOf (Refinement (new_RefinementState c a t)) = Some Approach
   \<and> phaseOf (RefinementIteration (new_RefinementIterationState c a t)) = Some Approach
   \<and> phaseOf (CodeGen (new_CodeGenState c a t)) = Some Codegen
   \<and> phaseOf (PrepareIteration (new_PrepareIterationState c a fs t)) = Some Codegen
   \<and> phaseOf (CodeGenIteration (new_CodeGenIterationState c a fs t)) = Some Codegen
   \<and> phaseOf (MockCodeGen (new_MockCodeGenState w c a t)) = None
   \<and> phaseOf (self (interact s act w)) = phaseOf s
   \<and> className (self (interact s act w)) = className s
   \<and> (returned (interact s act w) = Inr r \<longrightarrow>
        (\<exists>c a t. nextState r = RefinementIteration (new_RefinementIterationState c a t))
      \<or> (\<exists>c a t. nextState r = Refinement (new_RefinementState c a t))
      \<or> (\<exists>c a fs t. nextState r = PrepareIteration (new_PrepareIterationState c a fs t)))"
proof (intro conjI impI)
  show "phaseOf (self (interact s act w)) = phaseOf s"
    by (cases s)
       (simp_all add: lift_def ConversationNotStartedState_interact_def phase_of_RefinementState
          phase_of_RefinementIterationState phase_of_PrepareRefinementState phase_of_CodeGenState
          phase_of_CodeGenIterationState phase_of_PrepareIterationState)
next
  show "className (self (interact s act w)) = className s"
    by (cases s) (simp_all add: lift_def)
next
  assume "returned (interact s act w) = Inr r"
  then show "(\<exists>c a t. nextState r = RefinementIteration (new_RefinementIterationState c a t))
      \<or> (\<exists>c a t. nextState r = Refinement (new_RefinementState c a t))
      \<or> (\<exists>c a fs t. nextState r = PrepareIteration (new_PrepareIterationState c a fs t))"
  proof (cases s)
    case (ConversationNotStarted x)
    with \<open>returned (interact s act w) = Inr r\<close> show ?thesis
      by (simp add: lift_def ConversationNotStartedState_interact_def)
  next
    case (PrepareRefinement x)
    with \<open>returned (interact s act w) = Inr r\<close> show ?thesis
      using nextState_of_PrepareRefinementState [of x act w r] by (auto simp: lift_def)
  next
    case (Refinement x)
    with \<open>returned (interact s act w) = Inr r\<close> show ?thesis
      using nextState_of_RefinementState [of x act w r] by (auto simp: lift_def)
  next
    case (RefinementIteration x)
    with \<open>returned (interact s act w) = Inr r\<close> show ?thesis
      using nextState_of_RefinementIterationState [of x act w r] by (auto simp: lift_def)
  next
    case (CodeGen x)
    with \<open>returned (interact s act w) = Inr r\<close> show ?thesis
      using nextState_of_CodeGenState [of x act w r] by (auto simp: lift_def)
  next
    case (MockCodeGen x)
    with \<open>returned (interact s act w) = Inr r\<close> show ?thesis
      using nextState_of_MockCodeGenState [of x act w r] by (auto simp: lift_def)
  next
    case (PrepareIteration x)
    with \<open>returned (interact s act w) = Inr r\<close> show ?thesis
      using nextState_of_PrepareIterationState [of x act w r] by (auto simp: lift_def)
  next
    case (CodeGenIteration x)
    with \<open>returned (interact s act w) = Inr r\<close> show ?thesis
      using nextState_of_CodeGenIterationState [of x act w r] by (auto simp: lift_def)
  qed
qed (simp_all add: new_ConversationNotStartedState_def new_PrepareRefinementState_def
       new_RefinementState_def new_RefinementIterationState_def new_CodeGenState_def
       new_PrepareIterationState_def new_CodeGenIterationState_def)

theorem phase_fixed_at_construction_witness:
  "returned (interact
       (Refinement (new_RefinementState (exampleConfig (script []) (Inr (Some ''Use a map''))) [] ''tab-1''))
       \<lparr> msg = Some ''add a cache'' \<rparr> (exampleWorld neverCancelled))
     = Inr \<lparr> nextState = RefinementIteration
               (new_RefinementIterationState (exampleConfig (script []) (Inr (Some ''Use a map'')))
                  ''Use a map'' ''tab-1''),
             content = Some (''Use a map'' @ [CHR 0x0A]) \<rparr>
   \<and> phaseOf (self (interact
       (Refinement (new_RefinementState (exampleConfig (script []) (Inr (Some ''Use a map''))) [] ''tab-1''))
       \<lparr> msg = Some ''add a cache'' \<rparr> (exampleWorld neverCancelled))) = Some Approach
   \<and> className (self (interact
       (Refinement (new_RefinementState (exampleConfig (script []) (Inr (Some ''Use a map''))) [] ''tab-1''))
       \<lparr> msg = Some ''add a cache'' \<rparr> (exampleWorld neverCancelled))) = ''RefinementState''"
proof -
  have h: "returned (interact
       (Refinement (new_RefinementState (exampleConfig (script []) (Inr (Some ''Use a map''))) [] ''tab-1''))
       \<lparr> msg = Some ''add a cache'' \<rparr> (exampleWorld neverCancelled))
     = Inr \<lparr> nextState = RefinementIteration
               (new_RefinementIterationState (exampleConfig (script []) (Inr (Some ''Use a map'')))
                  ''Use a map'' ''tab-1''),
             content = Some (''Use a map'' @ [CHR 0x0A]) \<rparr>"
    by (simp add: lift_def RefinementState_interact_def exampleConfig_def exampleClient_def
          exampleWorld_def new_RefinementState_def new_RefinementIterationState_def Let_def)
  show ?thesis
    using h phase_fixed_at_construction
      [where s = "Refinement (new_RefinementState (exampleConfig (script []) (Inr (Some ''Use a map''))) [] ''tab-1'')"
         and act = "\<lparr> msg = Some ''add a cache'' \<rparr>" and w = "exampleWorld neverCancelled"
         and c = "exampleConfig (script []) (Inr (Some ''Use a map''))" and a = "[]" and t = "''tab-1''"]
    by simp
qed

text \<open>
  The claim C9 as written fails for \<open>MockCodeGenState\<close>: the object carries none of the
  three phases.
\<close>

theorem MockCodeGenState_has_no_phase:
  "phaseOf (MockCodeGen (new_MockCodeGenState (exampleWorld neverCancelled)
       (exampleConfig (script []) (Inr None)) ''plan'' ''tab-1'')) = None
   \<and> phaseOf (MockCodeGen (new_MockCodeGenState (exampleWorld neverCancelled)
       (exampleConfig (script []) (Inr None)) ''plan'' ''tab-1'')) \<noteq> Some Init
   \<and> phaseOf (MockCodeGen (new_MockCodeGenState (exampleWorld neverCancelled)
       (exampleConfig (script []) (Inr None)) ''plan'' ''tab-1'')) \<noteq> Some Approach
   \<and> phaseOf (MockCodeGen (new_MockCodeGenState (exampleWorld neverCancelled)
       (exampleConfig (script []) (Inr None)) ''plan'' ''tab-1'')) \<noteq> Some Codegen"
  by simp

text \<open>
  C10: when the snapshot and the upload succeed, \<open>PrepareIterationState.interact\<close> returns
  what \<open>interact\<close> of a new \<open>CodeGenIterationState\<close> returns, and that object is built with
  the approach \<open>''\<close>, whatever approach the \<open>PrepareIterationState\<close> holds; the
  \<open>PrepareIterationState\<close> the call returns as next state has the approach \<open>''\<close> as well.
\<close>

theorem PrepareIteration_discards_approach:
  assumes "prepareRepoData w (workspaceRoot (PrepareIterationState.config p))
             (PrepareIterationState.conversationId p) = Inr repo"
    and "createUploadUrl (proxyClient (PrepareIterationState.config p))
           (SessionStateConfigBase.conversationId (PrepareIterationState.config p))
           (zipFileChecksum repo) = Inr up"
    and "uploadCode w (uploadUrl up) (zipFileBuffer repo) (kmsKeyArn up) = Inr u"
  shows "returned (PrepareIterationState_interact p action w)
           = returned (CodeGenIterationState_interact
               (new_CodeGenIterationState
                  ((PrepareIterationState.config p)\<lparr> SessionStateConfig.uploadId := UploadUrl.uploadId up \<rparr>)
                  [] (PrepareIterationState.filePaths p) (PrepareIterationState.tabID p))
               action w)
       \<and> CodeGenIterationState.approach
           (new_CodeGenIterationState
              ((PrepareIterationState.config p)\<lparr> SessionStateConfig.uploadId := UploadUrl.uploadId up \<rparr>)
              [] (PrepareIterationState.filePaths p) (PrepareIterationState.tabID p)) = []
       \<and> (returned (PrepareIterationState_interact p action w) = Inr r \<longrightarrow>
            (\<exists>fs. nextState r = PrepareIteration
               (new_PrepareIterationState
                  ((PrepareIterationState.config p)\<lparr> SessionStateConfig.uploadId := UploadUrl.uploadId up \<rparr>)
                  [] fs (PrepareIterationState.tabID p))))"
proof (intro conjI impI)
  show d: "returned (PrepareIterationState_interact p action w)
           = returned (CodeGenIterationState_interact
               (new_CodeGenIterationState
                  ((PrepareIterationState.config p)\<lparr> SessionStateConfig.uploadId := UploadUrl.uploadId up \<rparr>)
                  [] (PrepareIterationState.filePaths p) (PrepareIterationState.tabID p))
               action w)"
    using assms by (simp add: PrepareIterationState_interact_def Let_def)
  show "CodeGenIterationState.approach
           (new_CodeGenIterationState
              ((PrepareIterationState.config p)\<lparr> SessionStateConfig.uploadId := UploadUrl.uploadId up \<rparr>)
              [] (PrepareIterationState.filePaths p) (PrepareIterationState.tabID p)) = []"
    by (simp add: new_CodeGenIterationState_def)
  assume "returned (PrepareIterationState_interact p action w) = Inr r"
  then have "returned (CodeGenIterationState_interact
               (new_CodeGenIterationState
                  ((PrepareIterationState.config p)\<lparr> SessionStateConfig.uploadId := UploadUrl.uploadId up \<rparr>)
                  [] (PrepareIterationState.filePaths p) (PrepareIterationState.tabID p))
               action w) = Inr r"
    by (simp add: d)
  then show "\<exists>fs. nextState r = PrepareIteration
               (new_PrepareIterationState
                  ((PrepareIterationState.config p)\<lparr> SessionStateConfig.uploadId := UploadUrl.uploadId up \<rparr>)
                  [] fs (PrepareIterationState.tabID p))"
    by (auto simp: CodeGenIterationState_interact_def new_CodeGenIterationState_def Let_def
          split: sum.splits prod.splits)
qed

theorem PrepareIteration_discards_approach_witness:
  "returned (PrepareIterationState_interact
       (new_PrepareIterationState (exampleConfig (script [''Complete'']) (Inr None))
          ''the accepted plan'' [''old.ts''] ''tab-1'')
       \<lparr> msg = Some ''rename it'' \<rparr> (exampleWorld neverCancelled))
     = Inr \<lparr> nextState = PrepareIteration
               (new_PrepareIterationState
                  ((exampleConfig (script [''Complete'']) (Inr None))\<lparr> SessionStateConfig.uploadId := ''upload-2'' \<rparr>)
                  [] [''src/a.ts'', ''README.md''] ''tab-1''),
             content = None \<rparr>"
proof -
  have h1: "prepareRepoData (exampleWorld neverCancelled)
      (workspaceRoot (PrepareIterationState.config
         (new_PrepareIterationState (exampleConfig (script [''Complete'']) (Inr None))
            ''the accepted plan'' [''old.ts''] ''tab-1'')))
      (PrepareIterationState.conversationId
         (new_PrepareIterationState (exampleConfig (script [''Complete'']) (Inr None))
            ''the accepted plan'' [''old.ts''] ''tab-1''))
      = Inr \<lparr> zipFileBuffer = ''zip'', zipFileChecksum = ''sum'' \<rparr>"
    by (simp add: exampleWorld_def)
  have h2: "createUploadUrl (proxyClient (PrepareIterationState.config
         (new_PrepareIterationState (exampleConfig (script [''Complete'']) (Inr None))
            ''the accepted plan'' [''old.ts''] ''tab-1'')))
      (SessionStateConfigBase.conversationId (PrepareIterationState.config
         (new_PrepareIterationState (exampleConfig (script [''Complete'']) (Inr None))
            ''the accepted plan'' [''old.ts''] ''tab-1'')))
      (zipFileChecksum \<lparr> zipFileBuffer = ''zip'', zipFileChecksum = ''sum'' \<rparr>)
      = Inr \<lparr> uploadUrl = ''https://upload'', UploadUrl.uploadId = ''upload-2'', kmsKeyArn = ''key'' \<rparr>"
    by (simp add: new_PrepareIterationState_def exampleConfig_def exampleClient_def)
  have h3: "uploadCode (exampleWorld neverCancelled)
      (uploadUrl \<lparr> uploadUrl = ''https://upload'', UploadUrl.uploadId = ''upload-2'', kmsKeyArn = ''key'' \<rparr>)
      (zipFileBuffer \<lparr> zipFileBuffer = ''zip'', zipFileChecksum = ''sum'' \<rparr>)
      (kmsKeyArn \<lparr> uploadUrl = ''https://upload'', UploadUrl.uploadId = ''upload-2'', kmsKeyArn = ''key'' \<rparr>)
      = Inr ()"
    by (simp add: exampleWorld_def)
  have run: "returned (CodeGenIterationState_interact
       (new_CodeGenIterationState
          ((exampleConfig (script [''Complete'']) (Inr None))\<lparr> SessionStateConfig.uploadId := ''upload-2'' \<rparr>)
          [] [''old.ts''] ''tab-1'')
       \<lparr> msg = Some ''rename it'' \<rparr> (exampleWorld neverCancelled))
     = Inr \<lparr> nextState = PrepareIteration
               (new_PrepareIterationState
                  ((exampleConfig (script [''Complete'']) (Inr None))\<lparr> SessionStateConfig.uploadId := ''upload-2'' \<rparr>)
                  [] [''src/a.ts'', ''README.md''] ''tab-1''),
             content = None \<rparr>"
    by (simp add: CodeGenIterationState_interact_def generateCode_def generateCode_loop.simps [of _ _ _ 0]
          example_defs neverCancelled_def Let_def)
  show ?thesis
    using PrepareIteration_discards_approach [OF h1 h2 h3,
        where action = "\<lparr> msg = Some ''rename it'' \<rparr>"] run
    by (simp add: new_PrepareIterationState_def)
qed

end
